theory Spec2Isabelle
  imports Complex_Main
begin

section \<open>Python values and exceptions\<close>

text \<open>
  The values \<^verbatim>\<open>json.loads\<close> produces: \<^verbatim>\<open>None\<close>, booleans, numbers, strings, lists
  and dicts. A dict is an association list read with \<open>map_of\<close>.
\<close>

datatype json =
    JNull
  | JBool bool
  | JInt int
  | JFloat rat
  | JStr string
  | JArr "json list"
  | JObj "(string \<times> json) list"

text \<open>
  Everything that ends a run early: \<^verbatim>\<open>module.fail_json(msg=...)\<close>, which reports the
  message and exits, and the uncaught Python exceptions the modelled code can raise.
\<close>

datatype error =
    FailJson string
  | AttributeError
  | TypeError
  | KeyError

text \<open>Python truthiness (\<^verbatim>\<open>if x\<close>, \<^verbatim>\<open>not x\<close>, \<^verbatim>\<open>x and y\<close>, \<^verbatim>\<open>x or y\<close>).\<close>

fun truthy :: "json \<Rightarrow> bool" where
  "truthy JNull = False"
| "truthy (JBool b) = b"
| "truthy (JInt n) = (n \<noteq> 0)"
| "truthy (JFloat r) = (r \<noteq> 0)"
| "truthy (JStr s) = (s \<noteq> [])"
| "truthy (JArr xs) = (xs \<noteq> [])"
| "truthy (JObj kvs) = (kvs \<noteq> [])"

text \<open>\<^verbatim>\<open>x.get(key)\<close>: only a dict has the method; a missing key gives \<^verbatim>\<open>None\<close>.\<close>

fun py_get :: "json \<Rightarrow> string \<Rightarrow> error + json" where
  "py_get (JObj kvs) k = Inr (case map_of kvs k of None \<Rightarrow> JNull | Some v \<Rightarrow> v)"
| "py_get _ k = Inl AttributeError"

text \<open>\<^verbatim>\<open>x['key']\<close>: a dict without the key raises KeyError, any other value TypeError.\<close>

fun py_index :: "json \<Rightarrow> string \<Rightarrow> error + json" where
  "py_index (JObj kvs) k = (case map_of kvs k of None \<Rightarrow> Inl KeyError | Some v \<Rightarrow> Inr v)"
| "py_index _ k = Inl TypeError"

text \<open>
  \<^verbatim>\<open>for x in v\<close>: a list yields its elements, a dict its keys, a string its
  characters; nothing else is iterable.
\<close>

fun py_iter :: "json \<Rightarrow> error + json list" where
  "py_iter (JArr xs) = Inr xs"
| "py_iter (JObj kvs) = Inr (map (\<lambda>kv. JStr (fst kv)) kvs)"
| "py_iter (JStr s) = Inr (map (\<lambda>c. JStr [c]) s)"
| "py_iter _ = Inl TypeError"

subsection \<open>Strings\<close>

fun startswith :: "string \<Rightarrow> string \<Rightarrow> bool" where
  "startswith s [] = True"
| "startswith [] (p # ps) = False"
| "startswith (c # cs) (p # ps) = (c = p \<and> startswith cs ps)"

text \<open>\<^verbatim>\<open>sub in s\<close> on strings.\<close>

fun contains :: "string \<Rightarrow> string \<Rightarrow> bool" where
  "contains sub [] = (sub = [])"
| "contains sub (c # cs) = (startswith (c # cs) sub \<or> contains sub cs)"

definition lstrip :: "char \<Rightarrow> string \<Rightarrow> string" where
  "lstrip ch s = dropWhile (\<lambda>c. c = ch) s"

definition rstrip :: "char \<Rightarrow> string \<Rightarrow> string" where
  "rstrip ch s = rev (dropWhile (\<lambda>c. c = ch) (rev s))"

fun str_nat :: "nat \<Rightarrow> string" where
  "str_nat n =
     (if n < 10 then [''0123456789'' ! n]
      else str_nat (n div 10) @ [''0123456789'' ! (n mod 10)])"

declare str_nat.simps [simp del]

text \<open>\<^verbatim>\<open>str(n)\<close> of an integer.\<close>

definition str_int :: "int \<Rightarrow> string" where
  "str_int i = (if i < 0 then CHR ''-'' # str_nat (nat (- i)) else str_nat (nat i))"

section \<open>The REST client (\<^verbatim>\<open>plugins/module_utils/rest_api.py\<close>)\<close>

record ApiResponse =
  rc :: int
  stdout :: string
  stderr :: string

definition status_code :: "ApiResponse \<Rightarrow> int" where
  "status_code r =
     (if rc r = 0 then 200
      else if rc r = 22 then
        (if contains ''404'' (stderr r) then 404
         else if contains ''401'' (stderr r) then 401
         else if contains ''403'' (stderr r) then 403
         else if contains ''409'' (stderr r) then 409
         else if contains ''500'' (stderr r) then 500
         else 400)
      else 500)"

definition text_of :: "ApiResponse \<Rightarrow> string" where
  "text_of r = (if stdout r \<noteq> [] then stdout r else stderr r)"

text \<open>The \<^verbatim>\<open>data\<close> argument of \<^verbatim>\<open>call\<close>: \<^verbatim>\<open>None\<close>, a string or a dict.\<close>

datatype body = NoBody | RawBody string | DictBody "(string \<times> json) list"

fun body_truthy :: "body \<Rightarrow> bool" where
  "body_truthy NoBody = False"
| "body_truthy (RawBody s) = (s \<noteq> [])"
| "body_truthy (DictBody kvs) = (kvs \<noteq> [])"

text \<open>One entry of the call log: the arguments \<^verbatim>\<open>call\<close> was invoked with.\<close>

record request =
  req_url :: string
  req_method :: string
  req_data :: body

text \<open>
  The world the module runs in: the calls made so far through the client, oldest first,
  and the wall clock (\<^verbatim>\<open>time.time()\<close>, in seconds).
\<close>

record world =
  trace :: "request list"
  clock :: rat

text \<open>
  What the module does not define itself. \<open>run_command\<close> is
  \<^verbatim>\<open>module.run_command(cmd, check_rc=False)\<close>: it runs curl and returns
  \<open>(rc, stdout, stderr)\<close>; the answer may depend on everything that happened before.
  \<open>latency\<close> is the time the command takes; a negative value counts as zero.
  \<open>loads\<close> is \<^verbatim>\<open>json.loads\<close>, with \<open>None\<close> for a JSONDecodeError or ValueError;
  \<open>dumps\<close> is \<^verbatim>\<open>json.dumps\<close>; \<open>repr\<close> is \<^verbatim>\<open>str()\<close> of floats, lists and dicts.
\<close>

record env =
  run_command :: "world \<Rightarrow> string list \<Rightarrow> int \<times> string \<times> string"
  latency :: "world \<Rightarrow> string list \<Rightarrow> rat"
  loads :: "string \<Rightarrow> json option"
  dumps :: "json \<Rightarrow> string"
  repr :: "json \<Rightarrow> string"

record RestApiClient =
  api_url :: string
  api_key :: string
  headers :: "(string \<times> string) list"

definition RestApiClient_init :: "string option \<Rightarrow> string option \<Rightarrow> error + RestApiClient" where
  "RestApiClient_init url key =
     (let u = (case url of None \<Rightarrow> ''https://localhost/api/v2.0''
                | Some s \<Rightarrow> if s \<noteq> [] then s else ''https://localhost/api/v2.0'')
      in case key of
           None \<Rightarrow> Inl (FailJson ''api_key is required for REST API access'')
         | Some k \<Rightarrow>
             if k = [] then Inl (FailJson ''api_key is required for REST API access'')
             else Inr \<lparr>api_url = u, api_key = k,
                       headers = [(''Authorization'', ''Bearer '' @ k),
                                  (''Content-Type'', ''application/json'')]\<rparr>)"

definition full_url :: "RestApiClient \<Rightarrow> string \<Rightarrow> string" where
  "full_url c url =
     (if startswith url ''/'' then rstrip CHR ''/'' (api_url c) @ url
      else if \<not> startswith url ''http''
        then rstrip CHR ''/'' (api_url c) @ ''/'' @ lstrip CHR ''/'' url
      else url)"

definition curl_cmd :: "env \<Rightarrow> RestApiClient \<Rightarrow> string \<Rightarrow> string \<Rightarrow> body \<Rightarrow> int \<Rightarrow> string list" where
  "curl_cmd e c url method data timeout =
     [''curl'', ''-s'', ''-k'', ''-X'', method]
     @ concat (map (\<lambda>kv. [''-H'', fst kv @ '': '' @ snd kv]) (headers c))
     @ (if body_truthy data \<and> method \<in> set [''POST'', ''PUT'', ''PATCH'']
        then [''-d'', (case data of DictBody kvs \<Rightarrow> dumps e (JObj kvs)
                                   | RawBody s \<Rightarrow> s
                                   | NoBody \<Rightarrow> [])]
        else [])
     @ [''--connect-timeout'', str_int timeout]
     @ [full_url c url]"

definition call :: "env \<Rightarrow> RestApiClient \<Rightarrow> world \<Rightarrow> string \<Rightarrow> string \<Rightarrow> body \<Rightarrow> int
                    \<Rightarrow> ApiResponse \<times> world" where
  "call e c w url method data timeout =
     (let cmd = curl_cmd e c url method data timeout;
          res = run_command e w cmd
      in (\<lparr>rc = fst res, stdout = fst (snd res), stderr = snd (snd res)\<rparr>,
          w\<lparr>trace := trace w @ [\<lparr>req_url = url, req_method = method, req_data = data\<rparr>],
            clock := clock w + max 0 (latency e w cmd)\<rparr>))"

text \<open>\<^verbatim>\<open>ApiResponse.json()\<close>: a body that does not parse gives the empty dict.\<close>

definition json_of :: "env \<Rightarrow> ApiResponse \<Rightarrow> json" where
  "json_of e r = (case loads e (stdout r) of Some v \<Rightarrow> v | None \<Rightarrow> JObj [])"

section \<open>The instance module (\<^verbatim>\<open>plugins/modules/truenas_incus_instance.py\<close>)\<close>

text \<open>
  \<^verbatim>\<open>state\<close> is restricted by \<^verbatim>\<open>choices\<close> of the argument spec, so it is a datatype.
\<close>

datatype state = Present | Absent | Started | Stopped | Restarted

text \<open>
  The AnsibleModule object: \<^verbatim>\<open>module.params\<close> and \<^verbatim>\<open>module.check_mode\<close>.
  AnsibleModule stores every key of the argument spec in \<^verbatim>\<open>params\<close>; an argument
  that was not supplied and has no default is stored as \<^verbatim>\<open>None\<close> (the module reads
  \<^verbatim>\<open>module.params['source']\<close> unguarded). \<open>None\<close> below is that \<^verbatim>\<open>None\<close>.
\<close>

record amodule =
  p_name :: string
  p_state :: state
  p_type :: string
  p_source :: "(string \<times> json) list option"
  p_config :: "(string \<times> json) list option"
  p_devices :: "(string \<times> json) list option"
  p_wait_for_ipv4 :: bool
  p_timeout :: int
  p_api_url :: "string option"
  p_api_key :: "string option"
  check_mode :: bool

text \<open>A dict-typed parameter as a Python value.\<close>

definition param_json :: "(string \<times> json) list option \<Rightarrow> json" where
  "param_json d = (case d of None \<Rightarrow> JNull | Some kvs \<Rightarrow> JObj kvs)"

text \<open>The argument of \<^verbatim>\<open>module.exit_json\<close>.\<close>

record result =
  changed :: bool
  instance_of :: json

text \<open>A value formatted into an f-string.\<close>

definition fmt :: "env \<Rightarrow> json \<Rightarrow> string" where
  "fmt e v =
     (case v of
        JStr s \<Rightarrow> s
      | JInt n \<Rightarrow> str_int n
      | JNull \<Rightarrow> ''None''
      | JBool b \<Rightarrow> (if b then ''True'' else ''False'')
      | _ \<Rightarrow> repr e v)"

text \<open>Sequencing: an error ends the run, keeping the world reached so far.\<close>

definition and_then ::
  "(error + 'a) \<times> world \<Rightarrow> ('a \<Rightarrow> world \<Rightarrow> (error + 'b) \<times> world) \<Rightarrow> (error + 'b) \<times> world" where
  "and_then r f = (case fst r of Inl err \<Rightarrow> (Inl err, snd r) | Inr x \<Rightarrow> f x (snd r))"

text \<open>\<^verbatim>\<open>x or {}\<close>.\<close>

definition or_empty :: "json \<Rightarrow> json" where
  "or_empty x = (if truthy x then x else JObj [])"

text \<open>The loop of \<^verbatim>\<open>get_instance\<close>; \<open>JNull\<close> is the \<^verbatim>\<open>None\<close> returned after it.\<close>

fun find_by_name :: "json list \<Rightarrow> string \<Rightarrow> error + json" where
  "find_by_name [] name = Inr JNull"
| "find_by_name (i # rest) name =
     (case py_get i ''name'' of
        Inl err \<Rightarrow> Inl err
      | Inr v \<Rightarrow> if v = JStr name then Inr i else find_by_name rest name)"

definition get_instance :: "env \<Rightarrow> RestApiClient \<Rightarrow> world \<Rightarrow> string \<Rightarrow> (error + json) \<times> world" where
  "get_instance e c w name =
     (let (response, w1) = call e c w ''/virt/instance'' ''GET'' NoBody 60
      in if status_code response = 200 then
           (case py_iter (json_of e response) of
              Inl err \<Rightarrow> (Inl err, w1)
            | Inr instances \<Rightarrow> (find_by_name instances name, w1))
         else (Inr JNull, w1))"

text \<open>The \<^verbatim>\<open>payload\<close> dict that \<^verbatim>\<open>create_instance\<close> builds.\<close>

definition create_payload :: "amodule \<Rightarrow> (string \<times> json) list" where
  "create_payload m =
     [(''name'', JStr (p_name m)), (''type'', JStr (p_type m))]
     @ (if truthy (param_json (p_source m)) then [(''source'', param_json (p_source m))] else [])
     @ (if truthy (param_json (p_config m)) then [(''config'', param_json (p_config m))] else [])
     @ (if truthy (param_json (p_devices m)) then [(''devices'', param_json (p_devices m))] else [])"

definition create_instance ::
  "env \<Rightarrow> amodule \<Rightarrow> RestApiClient \<Rightarrow> world \<Rightarrow> (error + bool \<times> json) \<times> world" where
  "create_instance e m c w =
     (let payload = create_payload m;
          (response, w1) = call e c w ''/virt/instance'' ''POST'' (DictBody payload) 60
      in if status_code response \<in> set [200, 201] then (Inr (True, json_of e response), w1)
         else (Inl (FailJson (''Failed to create instance: '' @ text_of response)), w1))"

definition start_instance :: "env \<Rightarrow> RestApiClient \<Rightarrow> world \<Rightarrow> json \<Rightarrow> (error + bool) \<times> world" where
  "start_instance e c w instance_id =
     (let (response, w1) =
            call e c w (''/virt/instance/'' @ fmt e instance_id @ ''/start'') ''POST'' NoBody 60
      in if status_code response \<in> set [200, 202, 409] then (Inr True, w1)
         else (Inl (FailJson (''Failed to start instance: '' @ text_of response)), w1))"

definition stop_instance :: "env \<Rightarrow> RestApiClient \<Rightarrow> world \<Rightarrow> json \<Rightarrow> (error + bool) \<times> world" where
  "stop_instance e c w instance_id =
     (let (response, w1) =
            call e c w (''/virt/instance/'' @ fmt e instance_id @ ''/stop'') ''POST'' NoBody 60
      in if status_code response \<in> set [200, 202, 409] then (Inr True, w1)
         else (Inl (FailJson (''Failed to stop instance: '' @ text_of response)), w1))"

definition restart_instance :: "env \<Rightarrow> RestApiClient \<Rightarrow> world \<Rightarrow> json \<Rightarrow> (error + bool) \<times> world" where
  "restart_instance e c w instance_id =
     (let (response, w1) =
            call e c w (''/virt/instance/'' @ fmt e instance_id @ ''/restart'') ''POST'' NoBody 60
      in if status_code response \<in> set [200, 202] then (Inr True, w1)
         else (Inl (FailJson (''Failed to restart instance: '' @ text_of response)), w1))"

definition delete_instance :: "env \<Rightarrow> RestApiClient \<Rightarrow> world \<Rightarrow> json \<Rightarrow> (error + bool) \<times> world" where
  "delete_instance e c w instance_id =
     and_then (stop_instance e c w instance_id) (\<lambda>stopped w1.
       let (response, w2) =
             call e c w1 (''/virt/instance/'' @ fmt e instance_id) ''DELETE'' NoBody 60
       in if status_code response \<in> set [200, 204] then (Inr True, w2)
          else (Inl (FailJson (''Failed to delete instance: '' @ text_of response)), w2))"

text \<open>\<^verbatim>\<open>time.sleep(s)\<close>.\<close>

definition sleep :: "rat \<Rightarrow> world \<Rightarrow> world" where
  "sleep s w = w\<lparr>clock := clock w + s\<rparr>"

text \<open>\<^verbatim>\<open>instance and instance.get('status') == desired_state\<close>.\<close>

definition status_is :: "json \<Rightarrow> string \<Rightarrow> error + bool" where
  "status_is inst desired_state =
     (if truthy inst then
        (case py_get inst ''status'' of
           Inl err \<Rightarrow> Inl err
         | Inr v \<Rightarrow> Inr (v = JStr desired_state))
      else Inr False)"

text \<open>
  The loop of \<^verbatim>\<open>wait_for_state\<close>. Every round that does not return sleeps two
  seconds, so the elapsed time reaches the timeout and the loop ends.
\<close>

function wait_loop ::
  "env \<Rightarrow> RestApiClient \<Rightarrow> string \<Rightarrow> string \<Rightarrow> int \<Rightarrow> rat \<Rightarrow> world \<Rightarrow> (error + bool) \<times> world" where
  "wait_loop e c name desired_state timeout start_time w =
     (if clock w - start_time < of_int timeout then
        (case get_instance e c w name of
           (Inl err, w1) \<Rightarrow> (Inl err, w1)
         | (Inr inst, w1) \<Rightarrow>
             (case status_is inst desired_state of
                Inl err \<Rightarrow> (Inl err, w1)
              | Inr reached \<Rightarrow>
                  if reached then (Inr True, w1)
                  else wait_loop e c name desired_state timeout start_time (sleep 2 w1)))
      else (Inr False, w))"
  by pat_completeness auto
termination
proof (relation "measure (\<lambda>(e, c, name, desired_state, timeout, start_time, w).
                    nat \<lceil>of_int timeout - (clock w - start_time)\<rceil>)", goal_cases)
  case 1
  show ?case by simp
next
  case (2 e c name desired_state timeout start_time w x1 w1 inst reached)
  have "clock w \<le> clock (snd (get_instance e c w name))"
    by (auto simp: get_instance_def call_def Let_def split: prod.splits sum.splits)
  with 2 have "clock w \<le> clock w1"
    by (metis snd_conv)
  then have "of_int timeout - (clock (sleep 2 w1) - start_time)
             \<le> of_int timeout - (clock w - start_time) - 2"
    by (simp add: sleep_def)
  moreover have "0 < of_int timeout - (clock w - start_time)"
    using 2 by simp
  ultimately show ?case
    by simp linarith
qed

declare wait_loop.simps [simp del]

definition wait_for_state ::
  "env \<Rightarrow> RestApiClient \<Rightarrow> world \<Rightarrow> string \<Rightarrow> string \<Rightarrow> int \<Rightarrow> (error + bool) \<times> world" where
  "wait_for_state e c w name desired_state timeout =
     wait_loop e c name desired_state timeout (clock w) w"

definition exit_json :: "bool \<Rightarrow> json \<Rightarrow> world \<Rightarrow> (error + result) \<times> world" where
  "exit_json ch inst w = (Inr \<lparr>changed = ch, instance_of = inst\<rparr>, w)"

definition main :: "env \<Rightarrow> amodule \<Rightarrow> world \<Rightarrow> (error + result) \<times> world" where
  "main e m w =
     (case RestApiClient_init (p_api_url m) (p_api_key m) of
        Inl err \<Rightarrow> (Inl err, w)
      | Inr c \<Rightarrow>
          and_then (get_instance e c w (p_name m)) (\<lambda>inst w1.
            case p_state m of
              Present \<Rightarrow>
                if \<not> truthy inst then
                  if \<not> check_mode m then
                    and_then (create_instance e m c w1) (\<lambda>created w2.
                      if truthy (snd created) then
                        and_then (py_get (param_json (p_config m)) ''boot.autostart'', w2) (\<lambda>auto w2.
                          if auto = JStr ''true'' then
                            and_then (py_index (snd created) ''id'', w2) (\<lambda>instance_id w2.
                              and_then (start_instance e c w2 instance_id) (\<lambda>started w3.
                                exit_json (fst created) (or_empty (snd created)) w3))
                          else exit_json (fst created) (or_empty (snd created)) w2)
                      else exit_json (fst created) (or_empty (snd created)) w2)
                  else exit_json True (or_empty inst) w1
                else exit_json False (or_empty inst) w1
            | Absent \<Rightarrow>
                if truthy inst then
                  if \<not> check_mode m then
                    and_then (py_index inst ''id'', w1) (\<lambda>instance_id w1.
                      and_then (delete_instance e c w1 instance_id) (\<lambda>ch w2.
                        exit_json ch (JObj []) w2))
                  else exit_json True (JObj []) w1
                else exit_json False (JObj []) w1
            | Started \<Rightarrow>
                if truthy inst then
                  and_then (py_get inst ''status'', w1) (\<lambda>status w1.
                    if status \<noteq> JStr ''Running'' then
                      if \<not> check_mode m then
                        and_then (py_index inst ''id'', w1) (\<lambda>instance_id w1.
                          and_then (start_instance e c w1 instance_id) (\<lambda>ch w2.
                            and_then (wait_for_state e c w2 (p_name m) ''Running'' (p_timeout m))
                              (\<lambda>reached w3. exit_json ch inst w3)))
                      else exit_json True inst w1
                    else exit_json False inst w1)
                else (Inl (FailJson (''Instance '' @ p_name m @ '' does not exist'')), w1)
            | Stopped \<Rightarrow>
                if truthy inst then
                  and_then (py_get inst ''status'', w1) (\<lambda>status w1.
                    if status \<noteq> JStr ''Stopped'' then
                      if \<not> check_mode m then
                        and_then (py_index inst ''id'', w1) (\<lambda>instance_id w1.
                          and_then (stop_instance e c w1 instance_id) (\<lambda>ch w2.
                            and_then (wait_for_state e c w2 (p_name m) ''Stopped'' (p_timeout m))
                              (\<lambda>reached w3. exit_json ch inst w3)))
                      else exit_json True inst w1
                    else exit_json False inst w1)
                else (Inl (FailJson (''Instance '' @ p_name m @ '' does not exist'')), w1)
            | Restarted \<Rightarrow>
                if truthy inst then
                  if \<not> check_mode m then
                    and_then (py_index inst ''id'', w1) (\<lambda>instance_id w1.
                      and_then (restart_instance e c w1 instance_id) (\<lambda>ch w2.
                        and_then (wait_for_state e c w2 (p_name m) ''Running'' (p_timeout m))
                          (\<lambda>reached w3. exit_json ch inst w3)))
                  else exit_json True inst w1
                else (Inl (FailJson (''Instance '' @ p_name m @ '' does not exist'')), w1)))"

section \<open>Test doubles\<close>

text \<open>
  As in the unit tests, which replace the transport by a mock with a list of answers
  (\<^verbatim>\<open>side_effect\<close>): the n-th call gets the n-th answer of the script, and a call
  beyond the script finds no server. \<open>bodies\<close> lists the bodies that parse, with
  their values. Commands take no time.
\<close>

definition mock_env :: "(int \<times> string \<times> string) list \<Rightarrow> (string \<times> json) list \<Rightarrow> env" where
  "mock_env script bodies =
     \<lparr>run_command = (\<lambda>w cmd. if length (trace w) < length script
                               then script ! length (trace w)
                               else (7, [], ''curl: (7) Failed to connect'')),
      latency = (\<lambda>w cmd. 0),
      loads = map_of bodies,
      dumps = (\<lambda>v. ''{}''),
      repr = (\<lambda>v. ''?'')\<rparr>"

definition mock_client :: RestApiClient where
  "mock_client = \<lparr>api_url = ''https://test.local/api/v2.0'', api_key = ''test-key'',
                  headers = [(''Authorization'', ''Bearer test-key''),
                             (''Content-Type'', ''application/json'')]\<rparr>"

definition world0 :: world where
  "world0 = \<lparr>trace = [], clock = 0\<rparr>"

text \<open>The module arguments of the unit tests' \<^verbatim>\<open>setUp\<close>.\<close>

definition mock_module :: amodule where
  "mock_module =
     \<lparr>p_name = ''test-container'', p_state = Present, p_type = ''CONTAINER'',
      p_source = Some [(''type'', JStr ''IMAGE''), (''alias'', JStr ''debian/12'')],
      p_config = Some [(''limits.cpu'', JStr ''2''), (''limits.memory'', JStr ''2GB'')],
      p_devices = Some [(''root'', JObj [(''type'', JStr ''disk''), (''path'', JStr ''/''),
                                          (''pool'', JStr ''default'')])],
      p_wait_for_ipv4 = False, p_timeout = 60,
      p_api_url = Some ''https://test.local/api/v2.0'', p_api_key = Some ''test-key'',
      check_mode = False\<rparr>"

text \<open>The instance list of \<^verbatim>\<open>test_get_instance_found\<close>, as a body and parsed.\<close>

definition instances_body :: string where
  "instances_body = ''[{id: 123, name: test-container, status: Running}, {id: 456, name: other-container, status: Stopped}]''"

definition instances_json :: json where
  "instances_json =
     JArr [JObj [(''id'', JStr ''123''), (''name'', JStr ''test-container''), (''status'', JStr ''Running'')],
           JObj [(''id'', JStr ''456''), (''name'', JStr ''other-container''), (''status'', JStr ''Stopped'')]]"

section \<open>The transport\<close>

lemma status_code_range:
  "status_code r \<in> {200, 400, 401, 403, 404, 409, 500}"
  by (simp add: status_code_def)

lemma rc_call:
  "rc (fst (call e c w url method data timeout))
     = fst (run_command e w (curl_cmd e c url method data timeout))"
  by (simp add: call_def Let_def)

lemma trace_call:
  "trace (snd (call e c w url method data timeout))
     = trace w @ [\<lparr>req_url = url, req_method = method, req_data = data\<rparr>]"
  by (simp add: call_def Let_def)

lemma clock_call:
  "clock w \<le> clock (snd (call e c w url method data timeout))"
  by (simp add: call_def Let_def)

text \<open>The test doubles, evaluated.\<close>

lemma call_mock:
  "call (mock_env script bodies) c w url method data timeout =
     (\<lparr>rc = fst (if length (trace w) < length script then script ! length (trace w)
                  else (7, [], ''curl: (7) Failed to connect'')),
       stdout = fst (snd (if length (trace w) < length script then script ! length (trace w)
                  else (7, [], ''curl: (7) Failed to connect''))),
       stderr = snd (snd (if length (trace w) < length script then script ! length (trace w)
                  else (7, [], ''curl: (7) Failed to connect'')))\<rparr>,
      w\<lparr>trace := trace w @ [\<lparr>req_url = url, req_method = method, req_data = data\<rparr>]\<rparr>)"
  by (simp add: call_def mock_env_def Let_def)

lemma loads_mock: "loads (mock_env script bodies) = map_of bodies"
  by (simp add: mock_env_def)

lemma mock_init:
  "RestApiClient_init (p_api_url mock_module) (p_api_key mock_module) = Inr mock_client"
  by (simp add: RestApiClient_init_def mock_module_def mock_client_def)

text \<open>
  Claim C1, as the code has it. \<open>call\<close> is a total function of curl's answer: its
  status code is one of 200, 400, 401, 403, 404, 409 and 500. A curl exit code other
  than 0 and 22 (no connection, TLS failure, timeout) gives 500. A status of 400, 401,
  403, 404 or 409 arises only from exit code 22, curl's report of an HTTP error; 200
  arises exactly from exit code 0. With exit code 22 the status is the first of 404,
  401, 403, 409 and 500 that occurs in curl's stderr, and 400 when none does. Status
  500 is shared by both kinds of failure.
\<close>

theorem call_status_code:
  "status_code (fst (call e c w url method data timeout)) \<in> {200, 400, 401, 403, 404, 409, 500}
   \<and> (fst (run_command e w (curl_cmd e c url method data timeout)) \<notin> {0, 22}
        \<longrightarrow> status_code (fst (call e c w url method data timeout)) = 500)
   \<and> (status_code (fst (call e c w url method data timeout)) \<in> {400, 401, 403, 404, 409}
        \<longrightarrow> fst (run_command e w (curl_cmd e c url method data timeout)) = 22)
   \<and> (fst (run_command e w (curl_cmd e c url method data timeout)) = 0
        \<longleftrightarrow> status_code (fst (call e c w url method data timeout)) = 200)
   \<and> (fst (run_command e w (curl_cmd e c url method data timeout)) = 22
        \<longrightarrow> status_code (fst (call e c w url method data timeout))
            = (if contains ''404'' (stderr (fst (call e c w url method data timeout))) then 404
               else if contains ''401'' (stderr (fst (call e c w url method data timeout))) then 401
               else if contains ''403'' (stderr (fst (call e c w url method data timeout))) then 403
               else if contains ''409'' (stderr (fst (call e c w url method data timeout))) then 409
               else if contains ''500'' (stderr (fst (call e c w url method data timeout))) then 500
               else 400))"
  by (simp add: status_code_def call_def Let_def)

theorem call_status_code_witness:
  "status_code (fst (call (mock_env [(35, [], ''curl: (35) TLS connect error'')] []) mock_client world0
      ''/virt/instance'' ''GET'' NoBody 60)) = 500
   \<and> status_code (fst (call (mock_env [(22, [], ''curl: (22) The requested URL returned error: 404'')] [])
      mock_client world0 ''/virt/instance'' ''GET'' NoBody 60)) = 404"
proof -
  let ?tls = "mock_env [(35, [], ''curl: (35) TLS connect error'')] []"
  let ?http = "mock_env [(22, [], ''curl: (22) The requested URL returned error: 404'')] []"
  have "fst (run_command ?tls world0 (curl_cmd ?tls mock_client ''/virt/instance'' ''GET'' NoBody 60))
          \<notin> {0, 22}"
    by (simp add: mock_env_def world0_def)
  with call_status_code [of ?tls mock_client world0 "''/virt/instance''" "''GET''" NoBody 60]
  have a: "status_code (fst (call ?tls mock_client world0 ''/virt/instance'' ''GET'' NoBody 60)) = 500"
    by blast
  have r: "fst (run_command ?http world0 (curl_cmd ?http mock_client ''/virt/instance'' ''GET'' NoBody 60))
          = 22"
    by (simp add: mock_env_def world0_def)
  have c: "contains ''404'' (stderr (fst (call ?http mock_client world0 ''/virt/instance'' ''GET'' NoBody 60)))"
    by (simp add: call_mock world0_def)
  from call_status_code [of ?http mock_client world0 "''/virt/instance''" "''GET''" NoBody 60]
  have "fst (run_command ?http world0 (curl_cmd ?http mock_client ''/virt/instance'' ''GET'' NoBody 60)) = 22
        \<longrightarrow> status_code (fst (call ?http mock_client world0 ''/virt/instance'' ''GET'' NoBody 60))
            = (if contains ''404'' (stderr (fst (call ?http mock_client world0 ''/virt/instance'' ''GET'' NoBody 60))) then 404
               else if contains ''401'' (stderr (fst (call ?http mock_client world0 ''/virt/instance'' ''GET'' NoBody 60))) then 401
               else if contains ''403'' (stderr (fst (call ?http mock_client world0 ''/virt/instance'' ''GET'' NoBody 60))) then 403
               else if contains ''409'' (stderr (fst (call ?http mock_client world0 ''/virt/instance'' ''GET'' NoBody 60))) then 409
               else if contains ''500'' (stderr (fst (call ?http mock_client world0 ''/virt/instance'' ''GET'' NoBody 60))) then 500
               else 400)"
    by (elim conjE)
  with r have "status_code (fst (call ?http mock_client world0 ''/virt/instance'' ''GET'' NoBody 60))
            = (if contains ''404'' (stderr (fst (call ?http mock_client world0 ''/virt/instance'' ''GET'' NoBody 60))) then 404
               else if contains ''401'' (stderr (fst (call ?http mock_client world0 ''/virt/instance'' ''GET'' NoBody 60))) then 401
               else if contains ''403'' (stderr (fst (call ?http mock_client world0 ''/virt/instance'' ''GET'' NoBody 60))) then 403
               else if contains ''409'' (stderr (fst (call ?http mock_client world0 ''/virt/instance'' ''GET'' NoBody 60))) then 409
               else if contains ''500'' (stderr (fst (call ?http mock_client world0 ''/virt/instance'' ''GET'' NoBody 60))) then 500
               else 400)"
    by (rule mp [rotated])
  with c have b: "status_code (fst (call ?http mock_client world0 ''/virt/instance'' ''GET'' NoBody 60)) = 404"
    by (simp only: if_True)
  from a b show ?thesis by (rule conjI)
qed

text \<open>
  Claim C1 as stated fails twice. An HTTP error 503 reported by curl surfaces as 400,
  not as 503; and a refused connection and an HTTP error 500 surface as the same status
  code, 500, so the caller cannot tell them apart.
\<close>

theorem call_status_code_counterexample:
  "status_code (fst (call (mock_env [(22, [], ''curl: (22) The requested URL returned error: 503'')] [])
      mock_client world0 ''/virt/instance'' ''GET'' NoBody 60)) = 400
   \<and> status_code (fst (call (mock_env [(7, [], ''curl: (7) Failed to connect to host'')] [])
      mock_client world0 ''/virt/instance'' ''GET'' NoBody 60)) = 500
   \<and> status_code (fst (call (mock_env [(22, [], ''curl: (22) The requested URL returned error: 500'')] [])
      mock_client world0 ''/virt/instance'' ''GET'' NoBody 60)) = 500"
  by (simp add: call_mock status_code_def world0_def)

section \<open>Lifecycle operations\<close>

lemma start_instance_unfold:
  "start_instance e c w iid =
     (if status_code (fst (call e c w (''/virt/instance/'' @ fmt e iid @ ''/start'') ''POST'' NoBody 60))
           \<in> {200, 202, 409}
      then Inr True
      else Inl (FailJson (''Failed to start instance: ''
             @ text_of (fst (call e c w (''/virt/instance/'' @ fmt e iid @ ''/start'') ''POST'' NoBody 60)))),
      snd (call e c w (''/virt/instance/'' @ fmt e iid @ ''/start'') ''POST'' NoBody 60))"
  by (cases "call e c w (''/virt/instance/'' @ fmt e iid @ ''/start'') ''POST'' NoBody 60")
     (simp add: start_instance_def)

lemma stop_instance_unfold:
  "stop_instance e c w iid =
     (if status_code (fst (call e c w (''/virt/instance/'' @ fmt e iid @ ''/stop'') ''POST'' NoBody 60))
           \<in> {200, 202, 409}
      then Inr True
      else Inl (FailJson (''Failed to stop instance: ''
             @ text_of (fst (call e c w (''/virt/instance/'' @ fmt e iid @ ''/stop'') ''POST'' NoBody 60)))),
      snd (call e c w (''/virt/instance/'' @ fmt e iid @ ''/stop'') ''POST'' NoBody 60))"
  by (cases "call e c w (''/virt/instance/'' @ fmt e iid @ ''/stop'') ''POST'' NoBody 60")
     (simp add: stop_instance_def)

lemma restart_instance_unfold:
  "restart_instance e c w iid =
     (if status_code (fst (call e c w (''/virt/instance/'' @ fmt e iid @ ''/restart'') ''POST'' NoBody 60))
           \<in> {200, 202}
      then Inr True
      else Inl (FailJson (''Failed to restart instance: ''
             @ text_of (fst (call e c w (''/virt/instance/'' @ fmt e iid @ ''/restart'') ''POST'' NoBody 60)))),
      snd (call e c w (''/virt/instance/'' @ fmt e iid @ ''/restart'') ''POST'' NoBody 60))"
  by (cases "call e c w (''/virt/instance/'' @ fmt e iid @ ''/restart'') ''POST'' NoBody 60")
     (simp add: restart_instance_def)

text \<open>
  Claim C3. Start and stop return true exactly when the POST to the action sub-path has
  status 200, 202 or 409 (already in the target state), restart exactly when it has
  status 200 or 202. In every other case the run ends with a fatal error whose message
  carries the response text. Each operation issues exactly that one POST.
\<close>

theorem action_status:
  "(fst (start_instance e c w iid) = Inr True
      \<longleftrightarrow> status_code (fst (call e c w (''/virt/instance/'' @ fmt e iid @ ''/start'') ''POST'' NoBody 60))
            \<in> {200, 202, 409})
   \<and> (fst (start_instance e c w iid) \<noteq> Inr True
      \<longrightarrow> fst (start_instance e c w iid) = Inl (FailJson (''Failed to start instance: ''
            @ text_of (fst (call e c w (''/virt/instance/'' @ fmt e iid @ ''/start'') ''POST'' NoBody 60)))))
   \<and> (fst (stop_instance e c w iid) = Inr True
      \<longleftrightarrow> status_code (fst (call e c w (''/virt/instance/'' @ fmt e iid @ ''/stop'') ''POST'' NoBody 60))
            \<in> {200, 202, 409})
   \<and> (fst (stop_instance e c w iid) \<noteq> Inr True
      \<longrightarrow> fst (stop_instance e c w iid) = Inl (FailJson (''Failed to stop instance: ''
            @ text_of (fst (call e c w (''/virt/instance/'' @ fmt e iid @ ''/stop'') ''POST'' NoBody 60)))))
   \<and> (fst (restart_instance e c w iid) = Inr True
      \<longleftrightarrow> status_code (fst (call e c w (''/virt/instance/'' @ fmt e iid @ ''/restart'') ''POST'' NoBody 60))
            \<in> {200, 202})
   \<and> (fst (restart_instance e c w iid) \<noteq> Inr True
      \<longrightarrow> fst (restart_instance e c w iid) = Inl (FailJson (''Failed to restart instance: ''
            @ text_of (fst (call e c w (''/virt/instance/'' @ fmt e iid @ ''/restart'') ''POST'' NoBody 60)))))
   \<and> trace (snd (start_instance e c w iid))
        = trace w @ [\<lparr>req_url = ''/virt/instance/'' @ fmt e iid @ ''/start'', req_method = ''POST'', req_data = NoBody\<rparr>]
   \<and> trace (snd (stop_instance e c w iid))
        = trace w @ [\<lparr>req_url = ''/virt/instance/'' @ fmt e iid @ ''/stop'', req_method = ''POST'', req_data = NoBody\<rparr>]
   \<and> trace (snd (restart_instance e c w iid))
        = trace w @ [\<lparr>req_url = ''/virt/instance/'' @ fmt e iid @ ''/restart'', req_method = ''POST'', req_data = NoBody\<rparr>]"
  unfolding start_instance_unfold stop_instance_unfold restart_instance_unfold
  by (simp add: trace_call del: append.simps)

theorem action_status_witness:
  "fst (start_instance (mock_env [(22, [], ''curl: (22) The requested URL returned error: 409'')] [])
          mock_client world0 (JStr ''123'')) = Inr True
   \<and> fst (stop_instance (mock_env [(22, [], ''curl: (22) The requested URL returned error: 409'')] [])
          mock_client world0 (JStr ''123'')) = Inr True
   \<and> fst (restart_instance (mock_env [(22, [], ''curl: (22) The requested URL returned error: 409'')] [])
          mock_client world0 (JStr ''123''))
       = Inl (FailJson ''Failed to restart instance: curl: (22) The requested URL returned error: 409'')"
  using action_status [of "mock_env [(22, [], ''curl: (22) The requested URL returned error: 409'')] []"
                          mock_client world0 "JStr ''123''"]
  by (simp add: mock_env_def world0_def status_code_def call_def Let_def text_of_def fmt_def)

lemma delete_instance_unfold:
  "delete_instance e c w iid =
     (if fst (stop_instance e c w iid) = Inr True then
        (if status_code (fst (call e c (snd (stop_instance e c w iid))
                (''/virt/instance/'' @ fmt e iid) ''DELETE'' NoBody 60)) \<in> {200, 204}
         then Inr True
         else Inl (FailJson (''Failed to delete instance: ''
                @ text_of (fst (call e c (snd (stop_instance e c w iid))
                    (''/virt/instance/'' @ fmt e iid) ''DELETE'' NoBody 60)))),
         snd (call e c (snd (stop_instance e c w iid))
                (''/virt/instance/'' @ fmt e iid) ''DELETE'' NoBody 60))
      else stop_instance e c w iid)"
  by (cases "call e c (snd (stop_instance e c w iid)) (''/virt/instance/'' @ fmt e iid) ''DELETE'' NoBody 60")
     (simp add: delete_instance_def and_then_def stop_instance_unfold)

lemma main_absent_found:
  assumes "RestApiClient_init (p_api_url m) (p_api_key m) = Inr c"
    and "get_instance e c w (p_name m) = (Inr inst, w1)"
    and "truthy inst" and "py_index inst ''id'' = Inr iid"
    and "p_state m = Absent" and "\<not> check_mode m"
  shows "main e m w =
           (case fst (delete_instance e c w1 iid) of
              Inl err \<Rightarrow> Inl err
            | Inr ch \<Rightarrow> Inr \<lparr>changed = ch, instance_of = JObj []\<rparr>,
            snd (delete_instance e c w1 iid))"
  using assms by (simp add: main_def and_then_def exit_json_def split: sum.splits)

text \<open>
  Claim C4. Delete issues the POST to the stop sub-path first, whatever the instance's
  status (it is not even read), and the DELETE directly after it; the DELETE is issued
  when the stop was accepted, otherwise the run has ended with the stop's fatal error.
  Delete returns true exactly when the DELETE was issued and has status 200 or 204; any
  other DELETE status is a fatal error carrying the response text. State \<open>absent\<close> of
  \<open>main\<close> on an existing instance is this operation.
\<close>

theorem delete_stops_first:
  "trace (snd (delete_instance e c w iid))
     = trace w
       @ \<lparr>req_url = ''/virt/instance/'' @ fmt e iid @ ''/stop'', req_method = ''POST'', req_data = NoBody\<rparr>
       # (if fst (stop_instance e c w iid) = Inr True
          then [\<lparr>req_url = ''/virt/instance/'' @ fmt e iid, req_method = ''DELETE'', req_data = NoBody\<rparr>]
          else [])
   \<and> (fst (delete_instance e c w iid) = Inr True
        \<longleftrightarrow> fst (stop_instance e c w iid) = Inr True
            \<and> status_code (fst (call e c (snd (stop_instance e c w iid))
                  (''/virt/instance/'' @ fmt e iid) ''DELETE'' NoBody 60)) \<in> {200, 204})
   \<and> (fst (stop_instance e c w iid) = Inr True
        \<and> status_code (fst (call e c (snd (stop_instance e c w iid))
              (''/virt/instance/'' @ fmt e iid) ''DELETE'' NoBody 60)) \<notin> {200, 204}
        \<longrightarrow> fst (delete_instance e c w iid)
            = Inl (FailJson (''Failed to delete instance: ''
                @ text_of (fst (call e c (snd (stop_instance e c w iid))
                    (''/virt/instance/'' @ fmt e iid) ''DELETE'' NoBody 60)))))
   \<and> (fst (stop_instance e c w iid) \<noteq> Inr True
        \<longrightarrow> fst (delete_instance e c w iid) = fst (stop_instance e c w iid))
   \<and> (RestApiClient_init (p_api_url m) (p_api_key m) = Inr c
        \<and> get_instance e c w0 (p_name m) = (Inr inst, w)
        \<and> truthy inst \<and> py_index inst ''id'' = Inr iid
        \<and> p_state m = Absent \<and> \<not> check_mode m
        \<longrightarrow> snd (main e m w0) = snd (delete_instance e c w iid)
            \<and> (fst (main e m w0) = Inr \<lparr>changed = True, instance_of = JObj []\<rparr>
                 \<longleftrightarrow> fst (delete_instance e c w iid) = Inr True))"
proof -
  have tr: "trace (snd (stop_instance e c w iid))
     = trace w @ [\<lparr>req_url = ''/virt/instance/'' @ fmt e iid @ ''/stop'', req_method = ''POST'', req_data = NoBody\<rparr>]"
    by (simp add: stop_instance_unfold trace_call del: append.simps)
  have 1: "trace (snd (delete_instance e c w iid))
     = trace w
       @ \<lparr>req_url = ''/virt/instance/'' @ fmt e iid @ ''/stop'', req_method = ''POST'', req_data = NoBody\<rparr>
       # (if fst (stop_instance e c w iid) = Inr True
          then [\<lparr>req_url = ''/virt/instance/'' @ fmt e iid, req_method = ''DELETE'', req_data = NoBody\<rparr>]
          else [])"
    using tr by (simp add: delete_instance_unfold trace_call del: append.simps)
  have 2: "fst (delete_instance e c w iid) = Inr True
        \<longleftrightarrow> fst (stop_instance e c w iid) = Inr True
            \<and> status_code (fst (call e c (snd (stop_instance e c w iid))
                  (''/virt/instance/'' @ fmt e iid) ''DELETE'' NoBody 60)) \<in> {200, 204}"
    by (simp add: delete_instance_unfold del: append.simps)
  have 3: "fst (stop_instance e c w iid) = Inr True
        \<and> status_code (fst (call e c (snd (stop_instance e c w iid))
              (''/virt/instance/'' @ fmt e iid) ''DELETE'' NoBody 60)) \<notin> {200, 204}
        \<longrightarrow> fst (delete_instance e c w iid)
            = Inl (FailJson (''Failed to delete instance: ''
                @ text_of (fst (call e c (snd (stop_instance e c w iid))
                    (''/virt/instance/'' @ fmt e iid) ''DELETE'' NoBody 60))))"
    by (simp add: delete_instance_unfold del: append.simps)
  have 4: "fst (stop_instance e c w iid) \<noteq> Inr True
        \<longrightarrow> fst (delete_instance e c w iid) = fst (stop_instance e c w iid)"
    by (simp add: delete_instance_unfold del: append.simps)
  have 5: "RestApiClient_init (p_api_url m) (p_api_key m) = Inr c
        \<and> get_instance e c w0 (p_name m) = (Inr inst, w)
        \<and> truthy inst \<and> py_index inst ''id'' = Inr iid
        \<and> p_state m = Absent \<and> \<not> check_mode m
        \<longrightarrow> snd (main e m w0) = snd (delete_instance e c w iid)
            \<and> (fst (main e m w0) = Inr \<lparr>changed = True, instance_of = JObj []\<rparr>
                 \<longleftrightarrow> fst (delete_instance e c w iid) = Inr True)"
    by (auto simp: main_absent_found split: sum.splits)
  from 1 2 3 4 5 show ?thesis by blast
qed

theorem delete_stops_first_witness:
  "main (mock_env [(0, instances_body, []),
                   (22, [], ''curl: (22) The requested URL returned error: 409''),
                   (0, [], [])] [(instances_body, instances_json)])
        (mock_module\<lparr>p_state := Absent\<rparr>) world0
     = (Inr \<lparr>changed = True, instance_of = JObj []\<rparr>,
        \<lparr>trace = [\<lparr>req_url = ''/virt/instance'', req_method = ''GET'', req_data = NoBody\<rparr>,
                  \<lparr>req_url = ''/virt/instance/123/stop'', req_method = ''POST'', req_data = NoBody\<rparr>,
                  \<lparr>req_url = ''/virt/instance/123'', req_method = ''DELETE'', req_data = NoBody\<rparr>],
         clock = 0\<rparr>)
   \<and> fst (delete_instance (mock_env [(22, [], ''curl: (22) The requested URL returned error: 404'')] [])
        mock_client world0 (JStr ''123''))
     = Inl (FailJson ''Failed to stop instance: curl: (22) The requested URL returned error: 404'')
   \<and> trace (snd (delete_instance (mock_env [(22, [], ''curl: (22) The requested URL returned error: 404'')] [])
        mock_client world0 (JStr ''123'')))
     = [\<lparr>req_url = ''/virt/instance/123/stop'', req_method = ''POST'', req_data = NoBody\<rparr>]"
proof -
  let ?e = "mock_env [(0, instances_body, []),
                   (22, [], ''curl: (22) The requested URL returned error: 409''),
                   (0, [], [])] [(instances_body, instances_json)]"
  let ?m = "mock_module\<lparr>p_state := Absent\<rparr>"
  let ?i = "JObj [(''id'', JStr ''123''), (''name'', JStr ''test-container''), (''status'', JStr ''Running'')]"
  let ?w1 = "\<lparr>trace = [\<lparr>req_url = ''/virt/instance'', req_method = ''GET'', req_data = NoBody\<rparr>],
         clock = 0\<rparr>"
  let ?e' = "mock_env [(22, [], ''curl: (22) The requested URL returned error: 404'')] []"
  have init: "RestApiClient_init (p_api_url ?m) (p_api_key ?m) = Inr mock_client"
    using mock_init by simp
  have gi: "get_instance ?e mock_client world0 (p_name ?m) = (Inr ?i, ?w1)"
    by (simp add: get_instance_def call_mock loads_mock world0_def status_code_def json_of_def
        instances_json_def mock_module_def)
  have di: "delete_instance ?e mock_client ?w1 (JStr ''123'')
     = (Inr True, \<lparr>trace = [\<lparr>req_url = ''/virt/instance'', req_method = ''GET'', req_data = NoBody\<rparr>,
                  \<lparr>req_url = ''/virt/instance/123/stop'', req_method = ''POST'', req_data = NoBody\<rparr>,
                  \<lparr>req_url = ''/virt/instance/123'', req_method = ''DELETE'', req_data = NoBody\<rparr>],
         clock = 0\<rparr>)"
    by (simp add: delete_instance_def stop_instance_def and_then_def call_mock status_code_def fmt_def)
  have flags: "p_state ?m = Absent" "\<not> check_mode ?m"
    by (simp_all add: mock_module_def)
  have "snd (main ?e ?m world0) = snd (delete_instance ?e mock_client ?w1 (JStr ''123''))
        \<and> (fst (main ?e ?m world0) = Inr \<lparr>changed = True, instance_of = JObj []\<rparr>
             \<longleftrightarrow> fst (delete_instance ?e mock_client ?w1 (JStr ''123'')) = Inr True)"
    using delete_stops_first [of ?e mock_client ?w1 "JStr ''123''" ?m world0 ?i] init gi flags
    by simp
  then have a: "main ?e ?m world0 = (Inr \<lparr>changed = True, instance_of = JObj []\<rparr>,
        \<lparr>trace = [\<lparr>req_url = ''/virt/instance'', req_method = ''GET'', req_data = NoBody\<rparr>,
                  \<lparr>req_url = ''/virt/instance/123/stop'', req_method = ''POST'', req_data = NoBody\<rparr>,
                  \<lparr>req_url = ''/virt/instance/123'', req_method = ''DELETE'', req_data = NoBody\<rparr>],
         clock = 0\<rparr>)"
    by (simp add: di prod_eq_iff)
  have st: "fst (stop_instance ?e' mock_client world0 (JStr ''123''))
      = Inl (FailJson ''Failed to stop instance: curl: (22) The requested URL returned error: 404'')"
    by (simp add: stop_instance_def call_mock status_code_def fmt_def world0_def text_of_def)
  have b: "fst (delete_instance ?e' mock_client world0 (JStr ''123''))
      = Inl (FailJson ''Failed to stop instance: curl: (22) The requested URL returned error: 404'')"
    using delete_stops_first [of ?e' mock_client world0 "JStr ''123''" ?m world0 ?i] st
    by simp
  have c: "trace (snd (delete_instance ?e' mock_client world0 (JStr ''123'')))
     = [\<lparr>req_url = ''/virt/instance/123/stop'', req_method = ''POST'', req_data = NoBody\<rparr>]"
    using delete_stops_first [of ?e' mock_client world0 "JStr ''123''" ?m world0 ?i] st
    by (simp add: fmt_def world0_def)
  from a b c show ?thesis by simp
qed

section \<open>Instance lookup\<close>

lemma get_instance_unfold:
  "get_instance e c w name =
     (if status_code (fst (call e c w ''/virt/instance'' ''GET'' NoBody 60)) = 200 then
        (case py_iter (json_of e (fst (call e c w ''/virt/instance'' ''GET'' NoBody 60))) of
           Inl err \<Rightarrow> Inl err
         | Inr instances \<Rightarrow> find_by_name instances name)
      else Inr JNull,
      snd (call e c w ''/virt/instance'' ''GET'' NoBody 60))"
  by (cases "call e c w ''/virt/instance'' ''GET'' NoBody 60")
     (simp add: get_instance_def split: sum.splits)

lemma trace_get_instance:
  "trace (snd (get_instance e c w name))
     = trace w @ [\<lparr>req_url = ''/virt/instance'', req_method = ''GET'', req_data = NoBody\<rparr>]"
  unfolding get_instance_unfold by (simp add: trace_call del: append.simps)

lemma find_by_name_objects:
  "\<forall>x\<in>set xs. \<exists>kvs. x = JObj kvs \<Longrightarrow>
     find_by_name xs name
       = Inr (case find (\<lambda>i. py_get i ''name'' = Inr (JStr name)) xs of None \<Rightarrow> JNull | Some i \<Rightarrow> i)"
  by (induction xs) auto

lemma find_by_name_first:
  "\<forall>x\<in>set pre. \<exists>v. py_get x ''name'' = Inr v \<and> v \<noteq> JStr name \<Longrightarrow>
   py_get i ''name'' = Inr (JStr name) \<Longrightarrow>
     find_by_name (pre @ i # post) name = Inr i"
  by (induction pre) auto

lemma find_by_name_result:
  "find_by_name xs name = Inr v \<Longrightarrow>
     v = JNull \<or> (\<exists>kvs. v = JObj kvs \<and> map_of kvs ''name'' = Some (JStr name))"
proof (induction xs)
  case Nil
  then show ?case by simp
next
  case (Cons x xs)
  show ?case
  proof (cases x)
    case (JObj kvs)
    with Cons show ?thesis
      by (auto split: if_splits option.splits)
  qed (use Cons in simp_all)
qed

lemma get_instance_result:
  assumes "get_instance e c w name = (Inr v, w1)"
  shows "v = JNull \<or> (\<exists>kvs. v = JObj kvs \<and> map_of kvs ''name'' = Some (JStr name))"
proof -
  from assms have "find_by_name xs name = Inr v \<or> v = JNull" if "py_iter (json_of e (fst (call e c w ''/virt/instance'' ''GET'' NoBody 60))) = Inr xs" for xs
    using that unfolding get_instance_unfold by (auto split: if_splits)
  with assms show ?thesis
    unfolding get_instance_unfold
    by (auto split: if_splits sum.splits dest: find_by_name_result)
qed

text \<open>
  Claim C5. When the list GET has a status other than 200 the lookup returns
  \<^verbatim>\<open>None\<close>. When it has status 200 and the body is a list of instance records, the
  lookup returns the first record whose \<open>name\<close> equals the queried name, and
  \<^verbatim>\<open>None\<close> when there is none: the same value as for a failed list call. The first
  match wins whatever follows it in the list. The lookup issues the one GET.
\<close>

theorem get_instance_first_match:
  "(status_code (fst (call e c w ''/virt/instance'' ''GET'' NoBody 60)) \<noteq> 200
      \<longrightarrow> fst (get_instance e c w name) = Inr JNull)
   \<and> (status_code (fst (call e c w ''/virt/instance'' ''GET'' NoBody 60)) = 200
       \<and> json_of e (fst (call e c w ''/virt/instance'' ''GET'' NoBody 60)) = JArr xs
       \<and> (\<forall>x\<in>set xs. \<exists>kvs. x = JObj kvs)
      \<longrightarrow> fst (get_instance e c w name)
            = Inr (case find (\<lambda>i. py_get i ''name'' = Inr (JStr name)) xs of
                     None \<Rightarrow> JNull | Some i \<Rightarrow> i))
   \<and> (status_code (fst (call e c w ''/virt/instance'' ''GET'' NoBody 60)) = 200
       \<and> json_of e (fst (call e c w ''/virt/instance'' ''GET'' NoBody 60)) = JArr (pre @ i # post)
       \<and> (\<forall>x\<in>set pre. \<exists>v. py_get x ''name'' = Inr v \<and> v \<noteq> JStr name)
       \<and> py_get i ''name'' = Inr (JStr name)
      \<longrightarrow> fst (get_instance e c w name) = Inr i)
   \<and> snd (get_instance e c w name) = snd (call e c w ''/virt/instance'' ''GET'' NoBody 60)"
proof -
  have 1: "status_code (fst (call e c w ''/virt/instance'' ''GET'' NoBody 60)) \<noteq> 200
      \<longrightarrow> fst (get_instance e c w name) = Inr JNull"
    by (simp add: get_instance_unfold)
  have 2: "status_code (fst (call e c w ''/virt/instance'' ''GET'' NoBody 60)) = 200
       \<and> json_of e (fst (call e c w ''/virt/instance'' ''GET'' NoBody 60)) = JArr xs
       \<and> (\<forall>x\<in>set xs. \<exists>kvs. x = JObj kvs)
      \<longrightarrow> fst (get_instance e c w name)
            = Inr (case find (\<lambda>i. py_get i ''name'' = Inr (JStr name)) xs of
                     None \<Rightarrow> JNull | Some i \<Rightarrow> i)"
    by (simp add: get_instance_unfold find_by_name_objects)
  have 3: "status_code (fst (call e c w ''/virt/instance'' ''GET'' NoBody 60)) = 200
       \<and> json_of e (fst (call e c w ''/virt/instance'' ''GET'' NoBody 60)) = JArr (pre @ i # post)
       \<and> (\<forall>x\<in>set pre. \<exists>v. py_get x ''name'' = Inr v \<and> v \<noteq> JStr name)
       \<and> py_get i ''name'' = Inr (JStr name)
      \<longrightarrow> fst (get_instance e c w name) = Inr i"
    by (simp add: get_instance_unfold find_by_name_first)
  have 4: "snd (get_instance e c w name) = snd (call e c w ''/virt/instance'' ''GET'' NoBody 60)"
    by (simp add: get_instance_unfold)
  from 1 2 3 4 show ?thesis by blast
qed


theorem get_instance_first_match_witness:
  "fst (get_instance
          (mock_env [(0, ''three instances'', [])]
             [(''three instances'',
               JArr [JObj [(''id'', JStr ''456''), (''name'', JStr ''other-container'')],
                     JObj [(''id'', JStr ''123''), (''name'', JStr ''test-container'')],
                     JObj [(''id'', JStr ''789''), (''name'', JStr ''test-container'')]])])
          mock_client world0 ''test-container'')
     = Inr (JObj [(''id'', JStr ''123''), (''name'', JStr ''test-container'')])
   \<and> fst (get_instance
          (mock_env [(0, ''three instances'', [])]
             [(''three instances'',
               JArr [JObj [(''id'', JStr ''456''), (''name'', JStr ''other-container'')],
                     JObj [(''id'', JStr ''123''), (''name'', JStr ''test-container'')],
                     JObj [(''id'', JStr ''789''), (''name'', JStr ''test-container'')]])])
          mock_client world0 ''non-existent'')
     = Inr JNull
   \<and> fst (get_instance (mock_env [(7, [], ''curl: (7) Failed to connect'')] [])
          mock_client world0 ''non-existent'')
     = Inr JNull"
proof -
  let ?o = "JObj [(''id'', JStr ''456''), (''name'', JStr ''other-container'')]"
  let ?t = "JObj [(''id'', JStr ''123''), (''name'', JStr ''test-container'')]"
  let ?u = "JObj [(''id'', JStr ''789''), (''name'', JStr ''test-container'')]"
  let ?e = "mock_env [(0, ''three instances'', [])] [(''three instances'', JArr [?o, ?t, ?u])]"
  let ?f = "mock_env [(7, [], ''curl: (7) Failed to connect'')] []"
  have a: "fst (get_instance ?e mock_client world0 ''test-container'') = Inr ?t"
    using get_instance_first_match [of ?e mock_client world0 "''test-container''" "[?o, ?t, ?u]" "[?o]" ?t "[?u]"]
    by (simp add: call_mock loads_mock json_of_def status_code_def world0_def)
  have b: "fst (get_instance ?e mock_client world0 ''non-existent'') = Inr JNull"
    using get_instance_first_match [of ?e mock_client world0 "''non-existent''" "[?o, ?t, ?u]" "[?o]" ?t "[?u]"]
    by (simp add: call_mock loads_mock json_of_def status_code_def world0_def)
  have c: "fst (get_instance ?f mock_client world0 ''non-existent'') = Inr JNull"
    using get_instance_first_match [of ?f mock_client world0 "''non-existent''" "[]" "[]" JNull "[]"]
    by (simp add: call_mock status_code_def world0_def)
  from a b c show ?thesis by simp
qed


section \<open>The reconciler\<close>

lemma main_no_client:
  "RestApiClient_init (p_api_url m) (p_api_key m) = Inl err \<Longrightarrow> main e m w = (Inl err, w)"
  by (simp add: main_def)

lemma main_lookup_raises:
  assumes "RestApiClient_init (p_api_url m) (p_api_key m) = Inr c"
    and "fst (get_instance e c w (p_name m)) = Inl err"
  shows "main e m w = (Inl err, snd (get_instance e c w (p_name m)))"
  using assms by (simp add: main_def and_then_def)

lemma main_not_found:
  assumes "RestApiClient_init (p_api_url m) (p_api_key m) = Inr c"
    and "fst (get_instance e c w (p_name m)) = Inr inst" and "\<not> truthy inst"
    and "p_state m \<in> {Started, Stopped, Restarted}"
  shows "main e m w = (Inl (FailJson (''Instance '' @ p_name m @ '' does not exist'')),
                       snd (get_instance e c w (p_name m)))"
  using assms by (auto simp: main_def and_then_def)

lemma main_check_mode:
  assumes "RestApiClient_init (p_api_url m) (p_api_key m) = Inr c"
    and "fst (get_instance e c w (p_name m)) = Inr inst" and "check_mode m"
  shows "main e m w =
     (case p_state m of
        Present \<Rightarrow> Inr \<lparr>changed = \<not> truthy inst, instance_of = or_empty inst\<rparr>
      | Absent \<Rightarrow> Inr \<lparr>changed = truthy inst, instance_of = JObj []\<rparr>
      | Started \<Rightarrow>
          if truthy inst then
            (case py_get inst ''status'' of
               Inl err \<Rightarrow> Inl err
             | Inr st \<Rightarrow> Inr \<lparr>changed = (st \<noteq> JStr ''Running''), instance_of = inst\<rparr>)
          else Inl (FailJson (''Instance '' @ p_name m @ '' does not exist''))
      | Stopped \<Rightarrow>
          if truthy inst then
            (case py_get inst ''status'' of
               Inl err \<Rightarrow> Inl err
             | Inr st \<Rightarrow> Inr \<lparr>changed = (st \<noteq> JStr ''Stopped''), instance_of = inst\<rparr>)
          else Inl (FailJson (''Instance '' @ p_name m @ '' does not exist''))
      | Restarted \<Rightarrow>
          if truthy inst then Inr \<lparr>changed = True, instance_of = inst\<rparr>
          else Inl (FailJson (''Instance '' @ p_name m @ '' does not exist'')),
      snd (get_instance e c w (p_name m)))"
  using assms
  by (cases "p_state m") (simp_all add: main_def and_then_def exit_json_def split: sum.splits)

lemma main_present_found:
  assumes "RestApiClient_init (p_api_url m) (p_api_key m) = Inr c"
    and "fst (get_instance e c w (p_name m)) = Inr inst" and "truthy inst"
    and "p_state m = Present"
  shows "main e m w = (Inr \<lparr>changed = False, instance_of = inst\<rparr>,
                       snd (get_instance e c w (p_name m)))"
  using assms by (simp add: main_def and_then_def exit_json_def or_empty_def)

lemma main_present_create:
  assumes "RestApiClient_init (p_api_url m) (p_api_key m) = Inr c"
    and "get_instance e c w (p_name m) = (Inr inst, w1)" and "\<not> truthy inst"
    and "p_state m = Present" and "\<not> check_mode m"
    and "create_instance e m c w1 = (Inr (ch, created), w2)"
  shows "main e m w =
     (if truthy created then
        (case py_get (param_json (p_config m)) ''boot.autostart'' of
           Inl err \<Rightarrow> (Inl err, w2)
         | Inr auto \<Rightarrow>
             if auto = JStr ''true'' then
               (case py_index created ''id'' of
                  Inl err \<Rightarrow> (Inl err, w2)
                | Inr iid \<Rightarrow>
                    (case fst (start_instance e c w2 iid) of
                       Inl err \<Rightarrow> Inl err
                     | Inr started \<Rightarrow> Inr \<lparr>changed = ch, instance_of = created\<rparr>,
                     snd (start_instance e c w2 iid)))
             else (Inr \<lparr>changed = ch, instance_of = created\<rparr>, w2))
      else (Inr \<lparr>changed = ch, instance_of = JObj []\<rparr>, w2))"
  using assms
  by (simp add: main_def and_then_def exit_json_def or_empty_def split: sum.splits)

lemma main_present_create_fails:
  assumes "RestApiClient_init (p_api_url m) (p_api_key m) = Inr c"
    and "get_instance e c w (p_name m) = (Inr inst, w1)" and "\<not> truthy inst"
    and "p_state m = Present" and "\<not> check_mode m"
    and "create_instance e m c w1 = (Inl err, w2)"
  shows "main e m w = (Inl err, w2)"
  using assms by (simp add: main_def and_then_def)

lemma main_absent_none:
  assumes "RestApiClient_init (p_api_url m) (p_api_key m) = Inr c"
    and "fst (get_instance e c w (p_name m)) = Inr inst" and "\<not> truthy inst"
    and "p_state m = Absent"
  shows "main e m w = (Inr \<lparr>changed = False, instance_of = JObj []\<rparr>,
                       snd (get_instance e c w (p_name m)))"
  using assms by (simp add: main_def and_then_def exit_json_def)

lemma main_action:
  assumes "RestApiClient_init (p_api_url m) (p_api_key m) = Inr c"
    and "get_instance e c w (p_name m) = (Inr inst, w1)" and "truthy inst"
    and "\<not> check_mode m" and "py_get inst ''status'' = Inr st"
  shows "p_state m = Started \<Longrightarrow> st \<noteq> JStr ''Running'' \<Longrightarrow>
         main e m w =
           and_then (py_index inst ''id'', w1) (\<lambda>iid w1.
             and_then (start_instance e c w1 iid) (\<lambda>ch w2.
               and_then (wait_for_state e c w2 (p_name m) ''Running'' (p_timeout m))
                 (\<lambda>reached w3. (Inr \<lparr>changed = ch, instance_of = inst\<rparr>, w3))))"
    and "p_state m = Stopped \<Longrightarrow> st \<noteq> JStr ''Stopped'' \<Longrightarrow>
         main e m w =
           and_then (py_index inst ''id'', w1) (\<lambda>iid w1.
             and_then (stop_instance e c w1 iid) (\<lambda>ch w2.
               and_then (wait_for_state e c w2 (p_name m) ''Stopped'' (p_timeout m))
                 (\<lambda>reached w3. (Inr \<lparr>changed = ch, instance_of = inst\<rparr>, w3))))"
    and "p_state m = Restarted \<Longrightarrow>
         main e m w =
           and_then (py_index inst ''id'', w1) (\<lambda>iid w1.
             and_then (restart_instance e c w1 iid) (\<lambda>ch w2.
               and_then (wait_for_state e c w2 (p_name m) ''Running'' (p_timeout m))
                 (\<lambda>reached w3. (Inr \<lparr>changed = ch, instance_of = inst\<rparr>, w3))))"
    and "p_state m = Started \<Longrightarrow> st = JStr ''Running'' \<Longrightarrow>
         main e m w = (Inr \<lparr>changed = False, instance_of = inst\<rparr>, w1)"
    and "p_state m = Stopped \<Longrightarrow> st = JStr ''Stopped'' \<Longrightarrow>
         main e m w = (Inr \<lparr>changed = False, instance_of = inst\<rparr>, w1)"
  using assms by (simp_all add: main_def and_then_def exit_json_def cong: sum.case_cong)

lemma lookup_cases:
  assumes "fst (get_instance e c w name) = Inr inst"
  shows "inst = JNull \<or> (\<exists>kvs. inst = JObj kvs \<and> kvs \<noteq> [])"
proof -
  from assms have "get_instance e c w name = (Inr inst, snd (get_instance e c w name))"
    by (cases "get_instance e c w name") simp
  from get_instance_result [OF this]
  have "inst = JNull \<or> (\<exists>kvs. inst = JObj kvs \<and> map_of kvs ''name'' = Some (JStr name))" .
  then show ?thesis
  proof
    assume "inst = JNull"
    then show ?thesis by simp
  next
    assume "\<exists>kvs. inst = JObj kvs \<and> map_of kvs ''name'' = Some (JStr name)"
    then obtain kvs where "inst = JObj kvs" and k: "map_of kvs ''name'' = Some (JStr name)"
      by blast
    moreover from k have "kvs \<noteq> []"
      by (cases kvs) simp_all
    ultimately show ?thesis by blast
  qed
qed

lemma create_instance_unfold:
  "create_instance e m c w =
     (if status_code (fst (call e c w ''/virt/instance'' ''POST'' (DictBody (create_payload m)) 60))
           \<in> {200, 201}
      then Inr (True, json_of e (fst (call e c w ''/virt/instance'' ''POST'' (DictBody (create_payload m)) 60)))
      else Inl (FailJson (''Failed to create instance: ''
             @ text_of (fst (call e c w ''/virt/instance'' ''POST'' (DictBody (create_payload m)) 60)))),
      snd (call e c w ''/virt/instance'' ''POST'' (DictBody (create_payload m)) 60))"
  unfolding create_instance_def Let_def
  by (cases "call e c w ''/virt/instance'' ''POST'' (DictBody (create_payload m)) 60") simp

lemma create_instance_changed:
  "fst (create_instance e m c w) = Inr (ch, created) \<Longrightarrow> ch"
  by (auto simp: create_instance_unfold split: if_splits)

lemma start_instance_changed: "fst (start_instance e c w iid) = Inr ch \<Longrightarrow> ch"
  by (auto simp: start_instance_unfold split: if_splits)

lemma stop_instance_changed: "fst (stop_instance e c w iid) = Inr ch \<Longrightarrow> ch"
  by (auto simp: stop_instance_unfold split: if_splits)

lemma restart_instance_changed: "fst (restart_instance e c w iid) = Inr ch \<Longrightarrow> ch"
  by (auto simp: restart_instance_unfold split: if_splits)

lemma delete_instance_changed: "fst (delete_instance e c w iid) = Inr ch \<Longrightarrow> ch"
  using stop_instance_changed [of e c w iid]
  by (auto simp: delete_instance_unfold split: if_splits)

lemma and_then_InrE:
  assumes "fst (and_then r f) = Inr y"
  obtains x where "fst r = Inr x" and "fst (f x (snd r)) = Inr y"
  using assms by (auto simp: and_then_def split: sum.splits)

text \<open>What a run that is not in check mode reports, when it reports.\<close>

lemma main_real_changed:
  assumes init: "RestApiClient_init (p_api_url m) (p_api_key m) = Inr c"
    and gi: "fst (get_instance e c w (p_name m)) = Inr inst"
    and real: "\<not> check_mode m"
    and res: "fst (main e m w) = Inr r"
  shows "changed r =
     (case p_state m of
        Present \<Rightarrow> \<not> truthy inst
      | Absent \<Rightarrow> truthy inst
      | Started \<Rightarrow> py_get inst ''status'' \<noteq> Inr (JStr ''Running'')
      | Stopped \<Rightarrow> py_get inst ''status'' \<noteq> Inr (JStr ''Stopped'')
      | Restarted \<Rightarrow> True)
     \<and> (p_state m \<in> {Started, Stopped, Restarted} \<longrightarrow> truthy inst)"
proof -
  obtain w1 where gi': "get_instance e c w (p_name m) = (Inr inst, w1)"
    using gi by (cases "get_instance e c w (p_name m)") simp
  from lookup_cases [OF gi]
  consider "inst = JNull" | kvs where "inst = JObj kvs" "kvs \<noteq> []"
    by blast
  then show ?thesis
  proof cases
    case 1
    then have nt: "\<not> truthy inst" by simp
    show ?thesis
    proof (cases "p_state m")
      case Present
      show ?thesis
      proof (cases "fst (create_instance e m c w1)")
        case (Inl err)
        then have "create_instance e m c w1 = (Inl err, snd (create_instance e m c w1))"
          by (cases "create_instance e m c w1") simp
        from main_present_create_fails [OF init gi' nt Present real this] res
        show ?thesis by simp
      next
        case (Inr p)
        obtain ch created where p: "p = (ch, created)" by (cases p)
        with Inr have cr: "create_instance e m c w1 = (Inr (ch, created), snd (create_instance e m c w1))"
          by (cases "create_instance e m c w1") simp
        have ch: ch using create_instance_changed Inr p by blast
        have "changed r = ch"
          using main_present_create [OF init gi' nt Present real cr] res
          by (auto split: if_splits sum.splits)
        with ch Present nt show ?thesis by simp
      qed
    next
      case Absent
      from main_absent_none [OF init gi nt Absent] res have "\<not> changed r" by auto
      with Absent nt show ?thesis by simp
    next
      case Started
      with main_not_found [OF init gi nt] res show ?thesis by simp
    next
      case Stopped
      with main_not_found [OF init gi nt] res show ?thesis by simp
    next
      case Restarted
      with main_not_found [OF init gi nt] res show ?thesis by simp
    qed
  next
    case 2
    then have t: "truthy inst" by simp
    obtain st where st: "py_get inst ''status'' = Inr st"
      using 2 by simp
    show ?thesis
    proof (cases "p_state m")
      case Present
      from main_present_found [OF init gi t Present] res have "\<not> changed r" by auto
      with Present t show ?thesis by simp
    next
      case Absent
      show ?thesis
      proof (cases "py_index inst ''id''")
        case (Inl err)
        with init gi' t Absent real res show ?thesis
          by (simp add: main_def and_then_def)
      next
        case (Inr iid)
        from main_absent_found [OF init gi' t Inr Absent real] res
        have "fst (delete_instance e c w1 iid) = Inr (changed r)"
          by (auto split: sum.splits)
        from delete_instance_changed [OF this] Absent t show ?thesis by simp
      qed
    next
      case Started
      show ?thesis
      proof (cases "st = JStr ''Running''")
        case True
        from main_action(4) [OF init gi' t real st Started True] res
        have "\<not> changed r" by auto
        with Started st t True show ?thesis by simp
      next
        case False
        from main_action(1) [OF init gi' t real st Started False] res
        have "fst (and_then (py_index inst ''id'', w1) (\<lambda>iid w1.
             and_then (start_instance e c w1 iid) (\<lambda>ch w2.
               and_then (wait_for_state e c w2 (p_name m) ''Running'' (p_timeout m))
                 (\<lambda>reached w3. (Inr \<lparr>changed = ch, instance_of = inst\<rparr>, w3))))) = Inr r"
          by simp
        then obtain iid where "fst (and_then (start_instance e c w1 iid) (\<lambda>ch w2.
               and_then (wait_for_state e c w2 (p_name m) ''Running'' (p_timeout m))
                 (\<lambda>reached w3. (Inr \<lparr>changed = ch, instance_of = inst\<rparr>, w3)))) = Inr r"
          by (rule and_then_InrE) simp
        then obtain ch where ch: "fst (start_instance e c w1 iid) = Inr ch"
          and "fst (and_then (wait_for_state e c (snd (start_instance e c w1 iid)) (p_name m) ''Running'' (p_timeout m))
                 (\<lambda>reached w3. (Inr \<lparr>changed = ch, instance_of = inst\<rparr>, w3))) = Inr r"
          by (rule and_then_InrE)
        then have "changed r = ch"
          by (auto elim!: and_then_InrE)
        with start_instance_changed [OF ch] Started st False t show ?thesis by simp
      qed
    next
      case Stopped
      show ?thesis
      proof (cases "st = JStr ''Stopped''")
        case True
        from main_action(5) [OF init gi' t real st Stopped True] res
        have "\<not> changed r" by auto
        with Stopped st t True show ?thesis by simp
      next
        case False
        from main_action(2) [OF init gi' t real st Stopped False] res
        have "fst (and_then (py_index inst ''id'', w1) (\<lambda>iid w1.
             and_then (stop_instance e c w1 iid) (\<lambda>ch w2.
               and_then (wait_for_state e c w2 (p_name m) ''Stopped'' (p_timeout m))
                 (\<lambda>reached w3. (Inr \<lparr>changed = ch, instance_of = inst\<rparr>, w3))))) = Inr r"
          by simp
        then obtain iid where "fst (and_then (stop_instance e c w1 iid) (\<lambda>ch w2.
               and_then (wait_for_state e c w2 (p_name m) ''Stopped'' (p_timeout m))
                 (\<lambda>reached w3. (Inr \<lparr>changed = ch, instance_of = inst\<rparr>, w3)))) = Inr r"
          by (rule and_then_InrE) simp
        then obtain ch where ch: "fst (stop_instance e c w1 iid) = Inr ch"
          and "fst (and_then (wait_for_state e c (snd (stop_instance e c w1 iid)) (p_name m) ''Stopped'' (p_timeout m))
                 (\<lambda>reached w3. (Inr \<lparr>changed = ch, instance_of = inst\<rparr>, w3))) = Inr r"
          by (rule and_then_InrE)
        then have "changed r = ch"
          by (auto elim!: and_then_InrE)
        with stop_instance_changed [OF ch] Stopped st False t show ?thesis by simp
      qed
    next
      case Restarted
      from main_action(3) [OF init gi' t real st Restarted] res
      have "fst (and_then (py_index inst ''id'', w1) (\<lambda>iid w1.
             and_then (restart_instance e c w1 iid) (\<lambda>ch w2.
               and_then (wait_for_state e c w2 (p_name m) ''Running'' (p_timeout m))
                 (\<lambda>reached w3. (Inr \<lparr>changed = ch, instance_of = inst\<rparr>, w3))))) = Inr r"
        by simp
      then obtain iid where "fst (and_then (restart_instance e c w1 iid) (\<lambda>ch w2.
               and_then (wait_for_state e c w2 (p_name m) ''Running'' (p_timeout m))
                 (\<lambda>reached w3. (Inr \<lparr>changed = ch, instance_of = inst\<rparr>, w3)))) = Inr r"
        by (rule and_then_InrE) simp
      then obtain ch where ch: "fst (restart_instance e c w1 iid) = Inr ch"
        and "fst (and_then (wait_for_state e c (snd (restart_instance e c w1 iid)) (p_name m) ''Running'' (p_timeout m))
                 (\<lambda>reached w3. (Inr \<lparr>changed = ch, instance_of = inst\<rparr>, w3))) = Inr r"
        by (rule and_then_InrE)
      then have "changed r = ch"
        by (auto elim!: and_then_InrE)
      with restart_instance_changed [OF ch] Restarted t show ?thesis by simp
    qed
  qed
qed

text \<open>
  Claim C7. For the desired states \<open>started\<close>, \<open>stopped\<close> and \<open>restarted\<close>, when
  the lookup finds no instance of the given name the run ends with the fatal error
  "Instance <name> does not exist", and the lookup's GET is the only call issued.
\<close>

theorem not_found_fatal:
  assumes "RestApiClient_init (p_api_url m) (p_api_key m) = Inr c"
    and "fst (get_instance e c w (p_name m)) = Inr JNull"
    and "p_state m \<in> {Started, Stopped, Restarted}"
  shows "fst (main e m w) = Inl (FailJson (''Instance '' @ p_name m @ '' does not exist''))
         \<and> trace (snd (main e m w))
             = trace w @ [\<lparr>req_url = ''/virt/instance'', req_method = ''GET'', req_data = NoBody\<rparr>]"
proof -
  have "\<not> truthy JNull" by simp
  from main_not_found [OF assms(1) assms(2) this assms(3)] show ?thesis
    by (simp add: trace_get_instance del: append.simps)
qed

theorem not_found_fatal_witness:
  "fst (main (mock_env [(0, instances_body, [])] [(instances_body, instances_json)])
          (mock_module\<lparr>p_name := ''non-existent'', p_state := Restarted\<rparr>) world0)
     = Inl (FailJson ''Instance non-existent does not exist'')
   \<and> trace (snd (main (mock_env [(0, instances_body, [])] [(instances_body, instances_json)])
          (mock_module\<lparr>p_name := ''non-existent'', p_state := Restarted\<rparr>) world0))
     = [\<lparr>req_url = ''/virt/instance'', req_method = ''GET'', req_data = NoBody\<rparr>]"
proof -
  let ?e = "mock_env [(0, instances_body, [])] [(instances_body, instances_json)]"
  let ?m = "mock_module\<lparr>p_name := ''non-existent'', p_state := Restarted\<rparr>"
  have init: "RestApiClient_init (p_api_url ?m) (p_api_key ?m) = Inr mock_client"
    using mock_init by simp
  have gi: "fst (get_instance ?e mock_client world0 (p_name ?m)) = Inr JNull"
    by (simp add: get_instance_unfold call_mock loads_mock json_of_def status_code_def
          world0_def instances_json_def)
  have st: "p_state ?m \<in> {Started, Stopped, Restarted}"
    by simp
  from not_found_fatal [OF init gi st] show ?thesis
    by (simp add: world0_def)
qed

text \<open>
  Claim C8. In check mode a run issues no call but the lookup's GET (and none at all
  when the client cannot be built), whatever the desired state and the lookup's result.
  The \<open>changed\<close> it reports is that of the transition table: true exactly in the
  branches that would mutate. It agrees with the \<open>changed\<close> of the same run outside check
  mode, whenever that run reports a result.
\<close>

theorem check_mode_no_mutation:
  assumes "check_mode m"
  shows "(trace (snd (main e m w)) = trace w
          \<or> trace (snd (main e m w))
              = trace w @ [\<lparr>req_url = ''/virt/instance'', req_method = ''GET'', req_data = NoBody\<rparr>])
     \<and> (\<forall>c inst r'. RestApiClient_init (p_api_url m) (p_api_key m) = Inr c
            \<and> fst (get_instance e c w (p_name m)) = Inr inst
            \<and> fst (main e m w) = Inr r'
          \<longrightarrow> changed r' =
               (case p_state m of
                  Present \<Rightarrow> \<not> truthy inst
                | Absent \<Rightarrow> truthy inst
                | Started \<Rightarrow> py_get inst ''status'' \<noteq> Inr (JStr ''Running'')
                | Stopped \<Rightarrow> py_get inst ''status'' \<noteq> Inr (JStr ''Stopped'')
                | Restarted \<Rightarrow> True))
     \<and> (\<forall>r. fst (main e (m\<lparr>check_mode := False\<rparr>) w) = Inr r
          \<longrightarrow> (\<exists>r'. fst (main e m w) = Inr r' \<and> changed r' = changed r))"
proof (cases "RestApiClient_init (p_api_url m) (p_api_key m)")
  case (Inl err)
  then have "main e m w = (Inl err, w)" and "main e (m\<lparr>check_mode := False\<rparr>) w = (Inl err, w)"
    by (simp_all add: main_no_client)
  with Inl show ?thesis by simp
next
  case (Inr c)
  then have init': "RestApiClient_init (p_api_url (m\<lparr>check_mode := False\<rparr>))
                      (p_api_key (m\<lparr>check_mode := False\<rparr>)) = Inr c"
    by simp
  show ?thesis
  proof (cases "fst (get_instance e c w (p_name m))")
    case (Inl err)
    then have gi': "fst (get_instance e c w (p_name (m\<lparr>check_mode := False\<rparr>))) = Inl err"
      by simp
    have "main e m w = (Inl err, snd (get_instance e c w (p_name m)))"
      by (rule main_lookup_raises [OF Inr Inl])
    moreover have "fst (main e (m\<lparr>check_mode := False\<rparr>) w) = Inl err"
      using main_lookup_raises [OF init' gi'] by simp
    ultimately show ?thesis
      using Inr Inl by (simp add: trace_get_instance del: append.simps)
  next
    case gi: (Inr inst)
    note cm = main_check_mode [OF Inr gi assms]
    have tr: "trace (snd (main e m w))
        = trace w @ [\<lparr>req_url = ''/virt/instance'', req_method = ''GET'', req_data = NoBody\<rparr>]"
      unfolding cm by (simp add: trace_get_instance del: append.simps)
    from lookup_cases [OF gi]
    consider "inst = JNull" | kvs where "inst = JObj kvs" "kvs \<noteq> []"
      by blast
    then have table: "changed r' =
               (case p_state m of
                  Present \<Rightarrow> \<not> truthy inst
                | Absent \<Rightarrow> truthy inst
                | Started \<Rightarrow> py_get inst ''status'' \<noteq> Inr (JStr ''Running'')
                | Stopped \<Rightarrow> py_get inst ''status'' \<noteq> Inr (JStr ''Stopped'')
                | Restarted \<Rightarrow> True)" if "fst (main e m w) = Inr r'" for r'
    proof cases
      case 1
      with that show ?thesis
        unfolding cm by (cases "p_state m") auto
    next
      case 2
      with that show ?thesis
        unfolding cm by (cases "p_state m") auto
    qed
    have real: "\<exists>r'. fst (main e m w) = Inr r' \<and> changed r' = changed r"
      if r: "fst (main e (m\<lparr>check_mode := False\<rparr>) w) = Inr r" for r
    proof -
      have gi': "fst (get_instance e c w (p_name (m\<lparr>check_mode := False\<rparr>))) = Inr inst"
        using gi by simp
      have "\<not> check_mode (m\<lparr>check_mode := False\<rparr>)"
        by simp
      from main_real_changed [OF init' gi' this r]
      have ch: "changed r =
               (case p_state m of
                  Present \<Rightarrow> \<not> truthy inst
                | Absent \<Rightarrow> truthy inst
                | Started \<Rightarrow> py_get inst ''status'' \<noteq> Inr (JStr ''Running'')
                | Stopped \<Rightarrow> py_get inst ''status'' \<noteq> Inr (JStr ''Stopped'')
                | Restarted \<Rightarrow> True)"
        and tr: "p_state m \<in> {Started, Stopped, Restarted} \<longrightarrow> truthy inst"
        by simp_all
      from lookup_cases [OF gi] tr
      have "\<exists>r'. fst (main e m w) = Inr r'"
        unfolding cm by (cases "p_state m") auto
      then obtain r' where r': "fst (main e m w) = Inr r'" ..
      with table [OF r'] ch show ?thesis by simp
    qed
    from tr table real Inr gi show ?thesis
      by simp
  qed
qed

theorem check_mode_no_mutation_witness:
  "main (mock_env [(0, instances_body, [])] [(instances_body, instances_json)])
        (mock_module\<lparr>p_state := Absent, check_mode := True\<rparr>) world0
     = (Inr \<lparr>changed = True, instance_of = JObj []\<rparr>,
        \<lparr>trace = [\<lparr>req_url = ''/virt/instance'', req_method = ''GET'', req_data = NoBody\<rparr>],
         clock = 0\<rparr>)
   \<and> main (mock_env [(0, instances_body, [])] [(instances_body, instances_json)])
        (mock_module\<lparr>p_state := Started, check_mode := True\<rparr>) world0
     = (Inr \<lparr>changed = False,
             instance_of = JObj [(''id'', JStr ''123''), (''name'', JStr ''test-container''),
                                 (''status'', JStr ''Running'')]\<rparr>,
        \<lparr>trace = [\<lparr>req_url = ''/virt/instance'', req_method = ''GET'', req_data = NoBody\<rparr>],
         clock = 0\<rparr>)"
proof -
  let ?e = "mock_env [(0, instances_body, [])] [(instances_body, instances_json)]"
  let ?a = "mock_module\<lparr>p_state := Absent, check_mode := True\<rparr>"
  let ?s = "mock_module\<lparr>p_state := Started, check_mode := True\<rparr>"
  let ?i = "JObj [(''id'', JStr ''123''), (''name'', JStr ''test-container''), (''status'', JStr ''Running'')]"
  let ?w1 = "\<lparr>trace = [\<lparr>req_url = ''/virt/instance'', req_method = ''GET'', req_data = NoBody\<rparr>],
         clock = 0\<rparr>"
  have gi: "get_instance ?e mock_client world0 ''test-container'' = (Inr ?i, ?w1)"
    by (simp add: get_instance_unfold call_mock loads_mock world0_def status_code_def json_of_def
        instances_json_def)
  have cma: "check_mode ?a" and cms: "check_mode ?s"
    by simp_all
  have inita: "RestApiClient_init (p_api_url ?a) (p_api_key ?a) = Inr mock_client"
    and inits: "RestApiClient_init (p_api_url ?s) (p_api_key ?s) = Inr mock_client"
    using mock_init by simp_all
  have gia: "fst (get_instance ?e mock_client world0 (p_name ?a)) = Inr ?i"
    and gis: "fst (get_instance ?e mock_client world0 (p_name ?s)) = Inr ?i"
    using gi by (simp_all add: mock_module_def)
  have wa: "snd (get_instance ?e mock_client world0 (p_name ?a)) = ?w1"
    and ws: "snd (get_instance ?e mock_client world0 (p_name ?s)) = ?w1"
    using gi by (simp_all add: mock_module_def)
  have a: "main ?e ?a world0 = (Inr \<lparr>changed = True, instance_of = JObj []\<rparr>, ?w1)"
    using main_check_mode [OF inita gia cma] wa check_mode_no_mutation [OF cma, of ?e world0]
    by simp
  have s: "main ?e ?s world0 = (Inr \<lparr>changed = False, instance_of = ?i\<rparr>, ?w1)"
    using main_check_mode [OF inits gis cms] ws check_mode_no_mutation [OF cms, of ?e world0]
    by simp
  from a s show ?thesis by simp
qed

section \<open>The poller\<close>

lemma wait_loop_timeout:
  "of_int timeout \<le> clock w - start_time \<Longrightarrow>
     wait_loop e c name desired_state timeout start_time w = (Inr False, w)"
  by (simp add: wait_loop.simps)

lemma wait_loop_raises:
  "clock w - start_time < of_int timeout \<Longrightarrow> get_instance e c w name = (Inl err, w1) \<Longrightarrow>
     wait_loop e c name desired_state timeout start_time w = (Inl err, w1)"
  by (simp add: wait_loop.simps)


lemma wait_loop_retry:
  "clock w - start_time < of_int timeout \<Longrightarrow> get_instance e c w name = (Inr inst, w1) \<Longrightarrow>
   status_is inst desired_state = Inr False \<Longrightarrow>
     wait_loop e c name desired_state timeout start_time w
       = wait_loop e c name desired_state timeout start_time (sleep 2 w1)"
  by (subst wait_loop.simps) simp





section \<open>The reconciler and the poller\<close>

text \<open>
  Claim C9. For the desired states \<open>started\<close>, \<open>stopped\<close> and \<open>restarted\<close>, once the
  action call has succeeded the run reports \<open>changed = true\<close> with the instance found
  by the lookup, whatever the poller returns: a poll that timed out (false) gives the
  same result as one that reached the target status, and no error.
\<close>

theorem poll_result_ignored:
  assumes "\<not> check_mode m"
    and "RestApiClient_init (p_api_url m) (p_api_key m) = Inr c"
    and "get_instance e c w (p_name m) = (Inr inst, w1)"
    and "truthy inst"
    and "py_get inst ''status'' = Inr st"
    and "py_index inst ''id'' = Inr iid"
  shows "(p_state m = Started \<and> st \<noteq> JStr ''Running''
          \<and> start_instance e c w1 iid = (Inr ch, w2)
          \<and> wait_for_state e c w2 (p_name m) ''Running'' (p_timeout m) = (Inr reached, w3)
          \<longrightarrow> main e m w = (Inr \<lparr>changed = True, instance_of = inst\<rparr>, w3))
       \<and> (p_state m = Stopped \<and> st \<noteq> JStr ''Stopped''
          \<and> stop_instance e c w1 iid = (Inr ch, w2)
          \<and> wait_for_state e c w2 (p_name m) ''Stopped'' (p_timeout m) = (Inr reached, w3)
          \<longrightarrow> main e m w = (Inr \<lparr>changed = True, instance_of = inst\<rparr>, w3))
       \<and> (p_state m = Restarted
          \<and> restart_instance e c w1 iid = (Inr ch, w2)
          \<and> wait_for_state e c w2 (p_name m) ''Running'' (p_timeout m) = (Inr reached, w3)
          \<longrightarrow> main e m w = (Inr \<lparr>changed = True, instance_of = inst\<rparr>, w3))"
proof (intro conjI impI; elim conjE)
  assume s: "p_state m = Started" "st \<noteq> JStr ''Running''"
    and a: "start_instance e c w1 iid = (Inr ch, w2)"
    and p: "wait_for_state e c w2 (p_name m) ''Running'' (p_timeout m) = (Inr reached, w3)"
  from a have ch using start_instance_changed [of e c w1 iid ch] by simp
  with main_action(1) [OF assms(2) assms(3) assms(4) assms(1) assms(5) s] a p assms(6)
  show "main e m w = (Inr \<lparr>changed = True, instance_of = inst\<rparr>, w3)"
    by (simp add: and_then_def)
next
  assume s: "p_state m = Stopped" "st \<noteq> JStr ''Stopped''"
    and a: "stop_instance e c w1 iid = (Inr ch, w2)"
    and p: "wait_for_state e c w2 (p_name m) ''Stopped'' (p_timeout m) = (Inr reached, w3)"
  from a have ch using stop_instance_changed [of e c w1 iid ch] by simp
  with main_action(2) [OF assms(2) assms(3) assms(4) assms(1) assms(5) s] a p assms(6)
  show "main e m w = (Inr \<lparr>changed = True, instance_of = inst\<rparr>, w3)"
    by (simp add: and_then_def)
next
  assume s: "p_state m = Restarted"
    and a: "restart_instance e c w1 iid = (Inr ch, w2)"
    and p: "wait_for_state e c w2 (p_name m) ''Running'' (p_timeout m) = (Inr reached, w3)"
  from a have ch using restart_instance_changed [of e c w1 iid ch] by simp
  with main_action(3) [OF assms(2) assms(3) assms(4) assms(1) assms(5) s] a p assms(6)
  show "main e m w = (Inr \<lparr>changed = True, instance_of = inst\<rparr>, w3)"
    by (simp add: and_then_def)
qed

theorem poll_result_ignored_witness:
  "wait_for_state (mock_env [(0, instances_body, []), (0, [], [])] [(instances_body, instances_json)])
      mock_client
      \<lparr>trace = [\<lparr>req_url = ''/virt/instance'', req_method = ''GET'', req_data = NoBody\<rparr>,
                \<lparr>req_url = ''/virt/instance/456/start'', req_method = ''POST'', req_data = NoBody\<rparr>],
       clock = 0\<rparr>
      ''other-container'' ''Running'' 3
     = (Inr False,
        \<lparr>trace = [\<lparr>req_url = ''/virt/instance'', req_method = ''GET'', req_data = NoBody\<rparr>,
                  \<lparr>req_url = ''/virt/instance/456/start'', req_method = ''POST'', req_data = NoBody\<rparr>,
                  \<lparr>req_url = ''/virt/instance'', req_method = ''GET'', req_data = NoBody\<rparr>,
                  \<lparr>req_url = ''/virt/instance'', req_method = ''GET'', req_data = NoBody\<rparr>],
         clock = 4\<rparr>)
   \<and> main (mock_env [(0, instances_body, []), (0, [], [])] [(instances_body, instances_json)])
        (mock_module\<lparr>p_name := ''other-container'', p_state := Started, p_timeout := 3\<rparr>) world0
     = (Inr \<lparr>changed = True,
             instance_of = JObj [(''id'', JStr ''456''), (''name'', JStr ''other-container''),
                                 (''status'', JStr ''Stopped'')]\<rparr>,
        \<lparr>trace = [\<lparr>req_url = ''/virt/instance'', req_method = ''GET'', req_data = NoBody\<rparr>,
                  \<lparr>req_url = ''/virt/instance/456/start'', req_method = ''POST'', req_data = NoBody\<rparr>,
                  \<lparr>req_url = ''/virt/instance'', req_method = ''GET'', req_data = NoBody\<rparr>,
                  \<lparr>req_url = ''/virt/instance'', req_method = ''GET'', req_data = NoBody\<rparr>],
         clock = 4\<rparr>)"
proof -
  let ?e = "mock_env [(0, instances_body, []), (0, [], [])] [(instances_body, instances_json)]"
  let ?m = "mock_module\<lparr>p_name := ''other-container'', p_state := Started, p_timeout := 3\<rparr>"
  let ?get = "\<lparr>req_url = ''/virt/instance'', req_method = ''GET'', req_data = NoBody\<rparr>"
  let ?start = "\<lparr>req_url = ''/virt/instance/456/start'', req_method = ''POST'', req_data = NoBody\<rparr>"
  let ?i = "JObj [(''id'', JStr ''456''), (''name'', JStr ''other-container''), (''status'', JStr ''Stopped'')]"
  have real: "\<not> check_mode ?m"
    by (simp add: mock_module_def)
  have init: "RestApiClient_init (p_api_url ?m) (p_api_key ?m) = Inr mock_client"
    using mock_init by simp
  have gi: "get_instance ?e mock_client world0 (p_name ?m) = (Inr ?i, \<lparr>trace = [?get], clock = 0\<rparr>)"
    by (simp add: get_instance_unfold call_mock loads_mock world0_def status_code_def json_of_def
        instances_json_def)
  have st: "start_instance ?e mock_client \<lparr>trace = [?get], clock = 0\<rparr> (JStr ''456'')
              = (Inr True, \<lparr>trace = [?get, ?start], clock = 0\<rparr>)"
    by (simp add: start_instance_unfold call_mock status_code_def fmt_def)
  have p1: "get_instance ?e mock_client \<lparr>trace = [?get, ?start], clock = 0\<rparr> ''other-container''
              = (Inr JNull, \<lparr>trace = [?get, ?start, ?get], clock = 0\<rparr>)"
    by (simp add: get_instance_unfold call_mock status_code_def)
  have p2: "get_instance ?e mock_client \<lparr>trace = [?get, ?start, ?get], clock = 2\<rparr> ''other-container''
              = (Inr JNull, \<lparr>trace = [?get, ?start, ?get, ?get], clock = 2\<rparr>)"
    by (simp add: get_instance_unfold call_mock status_code_def)
  have poll: "wait_for_state ?e mock_client \<lparr>trace = [?get, ?start], clock = 0\<rparr>
                ''other-container'' ''Running'' 3
              = (Inr False, \<lparr>trace = [?get, ?start, ?get, ?get], clock = 4\<rparr>)"
    using wait_loop_retry [OF _ p1, of 0 3 "''Running''"]
          wait_loop_retry [OF _ p2, of 0 3 "''Running''"]
          wait_loop_timeout [of 3 "\<lparr>trace = [?get, ?start, ?get, ?get], clock = 4\<rparr>" 0
             ?e mock_client "''other-container''" "''Running''"]
    by (simp add: wait_for_state_def sleep_def status_is_def)
  have "main ?e ?m world0
          = (Inr \<lparr>changed = True, instance_of = ?i\<rparr>,
             \<lparr>trace = [?get, ?start, ?get, ?get], clock = 4\<rparr>)"
    using poll_result_ignored [OF real init gi, of "JStr ''Stopped''" "JStr ''456''" True
            "\<lparr>trace = [?get, ?start], clock = 0\<rparr>" False
            "\<lparr>trace = [?get, ?start, ?get, ?get], clock = 4\<rparr>"]
          st poll
    by simp
  with poll show ?thesis by simp
qed

text \<open>
  State \<open>present\<close> creating an instance when \<open>config\<close> was not supplied: whenever the
  create call succeeds with a non-empty answer, the run raises.
\<close>

lemma main_present_no_config:
  assumes "RestApiClient_init (p_api_url m) (p_api_key m) = Inr c"
    and "get_instance e c w (p_name m) = (Inr inst, w1)" and "\<not> truthy inst"
    and "p_state m = Present" and "\<not> check_mode m"
    and "create_instance e m c w1 = (Inr (ch, created), w2)"
    and "truthy created" and "p_config m = None"
  shows "main e m w = (Inl AttributeError, w2)"
  using main_present_create [OF assms(1-6)] assms(7,8)
  by (simp add: param_json_def)

text \<open>
  Claim C2, at a failing input. Desired state \<open>present\<close>, no instance of the name, the
  \<open>config\<close> argument not supplied, and a backend that creates the instance and answers
  with its record. The run issues the lookup and the create call and then raises
  AttributeError where it reads \<^verbatim>\<open>module.params.get('config', {}).get(...)\<close>: the key
  is present with value \<^verbatim>\<open>None\<close>, so the default does not apply. No result is
  reported. With an empty dict supplied as \<open>config\<close> the same run reports
  \<open>changed = true\<close>.
\<close>

theorem present_without_config_raises:
  "main (mock_env [(0, ''[]'', []), (0, ''{id: 123, name: test-container}'', [])]
           [(''[]'', JArr []),
            (''{id: 123, name: test-container}'',
             JObj [(''id'', JStr ''123''), (''name'', JStr ''test-container'')])])
        (mock_module\<lparr>p_config := None\<rparr>) world0
     = (Inl AttributeError,
        \<lparr>trace = [\<lparr>req_url = ''/virt/instance'', req_method = ''GET'', req_data = NoBody\<rparr>,
                  \<lparr>req_url = ''/virt/instance'', req_method = ''POST'',
                   req_data = DictBody
                     [(''name'', JStr ''test-container''), (''type'', JStr ''CONTAINER''),
                      (''source'', JObj [(''type'', JStr ''IMAGE''), (''alias'', JStr ''debian/12'')]),
                      (''devices'', JObj [(''root'', JObj [(''type'', JStr ''disk''), (''path'', JStr ''/''),
                                                          (''pool'', JStr ''default'')])])]\<rparr>],
         clock = 0\<rparr>)
   \<and> main (mock_env [(0, ''[]'', []), (0, ''{id: 123, name: test-container}'', [])]
           [(''[]'', JArr []),
            (''{id: 123, name: test-container}'',
             JObj [(''id'', JStr ''123''), (''name'', JStr ''test-container'')])])
        (mock_module\<lparr>p_config := Some []\<rparr>) world0
     = (Inr \<lparr>changed = True,
             instance_of = JObj [(''id'', JStr ''123''), (''name'', JStr ''test-container'')]\<rparr>,
        \<lparr>trace = [\<lparr>req_url = ''/virt/instance'', req_method = ''GET'', req_data = NoBody\<rparr>,
                  \<lparr>req_url = ''/virt/instance'', req_method = ''POST'',
                   req_data = DictBody
                     [(''name'', JStr ''test-container''), (''type'', JStr ''CONTAINER''),
                      (''source'', JObj [(''type'', JStr ''IMAGE''), (''alias'', JStr ''debian/12'')]),
                      (''devices'', JObj [(''root'', JObj [(''type'', JStr ''disk''), (''path'', JStr ''/''),
                                                          (''pool'', JStr ''default'')])])]\<rparr>],
         clock = 0\<rparr>)"
proof -
  let ?e = "mock_env [(0, ''[]'', []), (0, ''{id: 123, name: test-container}'', [])]
           [(''[]'', JArr []),
            (''{id: 123, name: test-container}'',
             JObj [(''id'', JStr ''123''), (''name'', JStr ''test-container'')])]"
  let ?n = "mock_module\<lparr>p_config := None\<rparr>"
  let ?s = "mock_module\<lparr>p_config := Some []\<rparr>"
  let ?get = "\<lparr>req_url = ''/virt/instance'', req_method = ''GET'', req_data = NoBody\<rparr>"
  let ?post = "\<lparr>req_url = ''/virt/instance'', req_method = ''POST'',
                   req_data = DictBody
                     [(''name'', JStr ''test-container''), (''type'', JStr ''CONTAINER''),
                      (''source'', JObj [(''type'', JStr ''IMAGE''), (''alias'', JStr ''debian/12'')]),
                      (''devices'', JObj [(''root'', JObj [(''type'', JStr ''disk''), (''path'', JStr ''/''),
                                                          (''pool'', JStr ''default'')])])]\<rparr>"
  let ?i = "JObj [(''id'', JStr ''123''), (''name'', JStr ''test-container'')]"
  have initn: "RestApiClient_init (p_api_url ?n) (p_api_key ?n) = Inr mock_client"
    and inits: "RestApiClient_init (p_api_url ?s) (p_api_key ?s) = Inr mock_client"
    using mock_init by simp_all
  have gi: "get_instance ?e mock_client world0 ''test-container''
              = (Inr JNull, \<lparr>trace = [?get], clock = 0\<rparr>)"
    by (simp add: get_instance_unfold call_mock loads_mock world0_def status_code_def json_of_def)
  then have gin: "get_instance ?e mock_client world0 (p_name ?n) = (Inr JNull, \<lparr>trace = [?get], clock = 0\<rparr>)"
    and gis: "get_instance ?e mock_client world0 (p_name ?s) = (Inr JNull, \<lparr>trace = [?get], clock = 0\<rparr>)"
    by (simp_all add: mock_module_def)
  have nt: "\<not> truthy JNull"
    by simp
  have flagsn: "p_state ?n = Present" "\<not> check_mode ?n"
    and flagss: "p_state ?s = Present" "\<not> check_mode ?s"
    by (simp_all add: mock_module_def)
  have crn: "create_instance ?e ?n mock_client \<lparr>trace = [?get], clock = 0\<rparr>
              = (Inr (True, ?i), \<lparr>trace = [?get, ?post], clock = 0\<rparr>)"
    by (simp add: create_instance_unfold create_payload_def param_json_def mock_module_def
          call_mock loads_mock status_code_def json_of_def)
  have crs: "create_instance ?e ?s mock_client \<lparr>trace = [?get], clock = 0\<rparr>
              = (Inr (True, ?i), \<lparr>trace = [?get, ?post], clock = 0\<rparr>)"
    by (simp add: create_instance_unfold create_payload_def param_json_def mock_module_def
          call_mock loads_mock status_code_def json_of_def)
  have a: "main ?e ?n world0 = (Inl AttributeError, \<lparr>trace = [?get, ?post], clock = 0\<rparr>)"
    by (rule main_present_no_config [OF initn gin nt flagsn crn]) simp_all
  have b: "main ?e ?s world0
             = (Inr \<lparr>changed = True, instance_of = ?i\<rparr>, \<lparr>trace = [?get, ?post], clock = 0\<rparr>)"
    using main_present_create [OF inits gis nt flagss crs]
    by (simp add: param_json_def)
  from a b show ?thesis by simp
qed

end
